theory Spec2Isabelle
  imports Complex_Main "HOL-Library.Char_ord" "HOL-Library.List_Lexorder" "HOL-Library.Word"
begin

section \<open>Tabular data\<close>

text \<open>
  The dashboard (\<^verbatim>\<open>streamlit_app.py\<close>) moves data around as pandas frames: a list of
  column names and a list of rows. A cell is an integer, an exact decimal (SQL
  \<^verbatim>\<open>numeric\<close>), a string or the missing value (SQL \<^verbatim>\<open>NULL\<close>, pandas \<^verbatim>\<open>NaN\<close>).
\<close>

datatype cell = IntC int | NumC rat | StrC string | NullC

record dataframe =
  columns :: "string list"
  rows :: "cell list list"

text \<open>\<^verbatim>\<open>DataFrame.empty\<close>: true when either axis has length zero.\<close>

definition df_empty :: "dataframe \<Rightarrow> bool" where
  "df_empty df = (columns df = [] \<or> rows df = [])"

text \<open>\<^verbatim>\<open>pd.DataFrame()\<close>\<close>

definition DataFrame :: dataframe where
  "DataFrame = \<lparr>columns = [], rows = []\<rparr>"

text \<open>Exceptions that the modelled calls can raise.\<close>

datatype exc = KeyError | IndexError | MergeError | ValueError | TypeError
  | ProgrammingError | DataError | DivideByZero | ArithmeticOverflow

section \<open>The pandas calls of the claims view\<close>

text \<open>
  The library calls that \<^verbatim>\<open>show_claims\<close> makes are modelled for frames whose column
  names are pairwise different, as frames read from a table are.

  \<^verbatim>\<open>df[names]\<close> keeps the named columns in the order asked for, and raises
  \<^verbatim>\<open>KeyError\<close> when a name is not a column.
\<close>

definition lookup_cell :: "string list \<Rightarrow> cell list \<Rightarrow> string \<Rightarrow> cell" where
  "lookup_cell cols row name =
     (case map_of (zip cols row) name of Some v \<Rightarrow> v | None \<Rightarrow> NullC)"

definition select_cols :: "string list \<Rightarrow> dataframe \<Rightarrow> exc + dataframe" where
  "select_cols names df =
     (if \<forall>n \<in> set names. n \<in> set (columns df)
      then Inr \<lparr>columns = names,
                rows = map (\<lambda>r. map (lookup_cell (columns df) r) names) (rows df)\<rparr>
      else Inl KeyError)"

text \<open>
  \<^verbatim>\<open>left.merge(right, on=key, how='left')\<close>: every left row, in order, is paired with
  each right row carrying the same key (missing keys match each other), or padded with
  missing values when there is none. The key column appears once; a name that both
  frames have beside the key gets the suffix \<^verbatim>\<open>_x\<close> on the left and \<^verbatim>\<open>_y\<close> on the
  right. A key that is not a column of both frames is a \<^verbatim>\<open>KeyError\<close>.

  pandas refuses to merge a key column of numbers with a key column of text
  (\<^verbatim>\<open>ValueError\<close>). A column is numeric here when it holds numbers and no text; a
  column of missing values only is not. The check is modelled for key columns that hold
  one kind of value, as the columns of a table do.
\<close>

definition drop_col :: "string \<Rightarrow> string list \<Rightarrow> 'a list \<Rightarrow> 'a list" where
  "drop_col key cols xs = map snd (filter (\<lambda>(c, v). c \<noteq> key) (zip cols xs))"

definition is_number :: "cell \<Rightarrow> bool" where
  "is_number c = (case c of IntC i \<Rightarrow> True | NumC q \<Rightarrow> True | _ \<Rightarrow> False)"

definition is_text :: "cell \<Rightarrow> bool" where
  "is_text c = (case c of StrC s \<Rightarrow> True | _ \<Rightarrow> False)"

definition numeric_column :: "cell list \<Rightarrow> bool" where
  "numeric_column vs = (list_ex is_number vs \<and> \<not> list_ex is_text vs)"

definition key_cells :: "dataframe \<Rightarrow> string \<Rightarrow> cell list" where
  "key_cells df key = map (\<lambda>r. lookup_cell (columns df) r key) (rows df)"

definition mergeable :: "cell list \<Rightarrow> cell list \<Rightarrow> bool" where
  "mergeable ls rs = (ls = [] \<or> rs = [] \<or> numeric_column ls = numeric_column rs)"

definition merge_row :: "string \<Rightarrow> dataframe \<Rightarrow> dataframe \<Rightarrow> cell list \<Rightarrow> cell list list" where
  "merge_row key left right l =
     (let k = lookup_cell (columns left) l key;
          ms = filter (\<lambda>r. lookup_cell (columns right) r key = k) (rows right)
      in if ms = []
         then [l @ replicate (length (drop_col key (columns right) (columns right))) NullC]
         else map (\<lambda>r. l @ drop_col key (columns right) r) ms)"

definition merge_on :: "dataframe \<Rightarrow> dataframe \<Rightarrow> string \<Rightarrow> exc + dataframe" where
  "merge_on left right key =
     (if key \<in> set (columns left) \<and> key \<in> set (columns right)
      then
        (if mergeable (key_cells left key) (key_cells right key)
         then
           (let rest = drop_col key (columns right) (columns right);
                lcols = map (\<lambda>c. if c \<noteq> key \<and> c \<in> set rest then c @ ''_x'' else c)
                          (columns left);
                rcols = map (\<lambda>c. if c \<in> set (columns left) then c @ ''_y'' else c) rest
            in Inr \<lparr>columns = lcols @ rcols,
                     rows = concat (map (merge_row key left right) (rows left))\<rparr>)
         else Inl ValueError)
      else Inl KeyError)"

text \<open>
  \<^verbatim>\<open>left.merge(right, left_on=col, right_index=False, how='left')\<close>: pandas validates
  the key arguments before it looks at any data, and a \<^verbatim>\<open>left_on\<close> that comes with
  neither \<^verbatim>\<open>right_on\<close> nor \<^verbatim>\<open>right_index=True\<close> is refused with
  \<^verbatim>\<open>MergeError\<close>, whatever the frames hold.
\<close>

definition merge_left_on :: "dataframe \<Rightarrow> dataframe \<Rightarrow> string \<Rightarrow> exc + dataframe" where
  "merge_left_on left right col = Inl MergeError"

section \<open>Strings\<close>

text \<open>\<^verbatim>\<open>s.endswith(suf)\<close> and \<^verbatim>\<open>needle in hay\<close> on Python strings.\<close>

definition endswith :: "string \<Rightarrow> string \<Rightarrow> bool" where
  "endswith s suf = (length suf \<le> length s \<and> drop (length s - length suf) s = suf)"

fun contains :: "string \<Rightarrow> string \<Rightarrow> bool" where
  "contains needle [] = (needle = [])"
| "contains needle (c # cs) =
     (take (length needle) (c # cs) = needle \<or> contains needle cs)"

section \<open>The user interface\<close>

text \<open>
  What a view does is the list of Streamlit calls with which it displays something, in
  order; what the user enters in its widgets is an argument of the view. Pictographs in
  titles are left out of the strings.
\<close>

datatype chart = Bar string string

datatype ui =
    St_header string
  | St_subheader string
  | St_warning string
  | St_success string
  | St_error exc
  | St_write string
  | St_code string
  | St_dataframe dataframe
  | St_metric string cell
  | St_plotly_chart chart
  | St_rerun

section \<open>The claims view (\<^verbatim>\<open>show_claims\<close>)\<close>

text \<open>
  The view records, beside what it displays, which merges it called, so that "no merge
  is performed" can be stated.
\<close>

datatype merge_call = Merge_on string | Merge_left_on string

text \<open>First step of the \<^verbatim>\<open>try\<close> block: the food-listing details.\<close>

definition food_cols :: "string list" where
  "food_cols = [''Food_ID'', ''Food_Name'', ''Location'', ''Food_Type'']"

definition available_food_cols :: "dataframe \<Rightarrow> string list" where
  "available_food_cols food_listings =
     filter (\<lambda>col. col \<in> set (columns food_listings)) food_cols"

definition merge_food :: "dataframe \<Rightarrow> dataframe \<Rightarrow> (exc + dataframe) \<times> merge_call list" where
  "merge_food claims food_listings =
     (let claims_with_details = claims in
      if ''Food_ID'' \<in> set (columns claims) \<and> ''Food_ID'' \<in> set (columns food_listings)
      then
        (if available_food_cols food_listings \<noteq> []
         then (case select_cols (available_food_cols food_listings) food_listings of
                 Inl e \<Rightarrow> (Inl e, [])
               | Inr sub \<Rightarrow>
                   (merge_on claims_with_details sub ''Food_ID'', [Merge_on ''Food_ID'']))
         else (Inr claims_with_details, []))
      else (Inr claims_with_details, []))"

text \<open>The \<^verbatim>\<open>if\<close>/\<^verbatim>\<open>elif\<close> chain that picks the receiver key.\<close>

definition receiver_key :: "string list \<Rightarrow> string list \<Rightarrow> string option" where
  "receiver_key claims_cols receivers_cols =
     (if ''Receiver_ID'' \<in> set claims_cols \<and> ''Receiver_ID'' \<in> set receivers_cols
        then Some ''Receiver_ID''
      else if ''ReceiverID'' \<in> set claims_cols \<and> ''ReceiverID'' \<in> set receivers_cols
        then Some ''ReceiverID''
      else if ''ReceiverId'' \<in> set claims_cols \<and> ''ReceiverId'' \<in> set receivers_cols
        then Some ''ReceiverId''
      else None)"

text \<open>
  The \<^verbatim>\<open>for\<close> loop of the \<^verbatim>\<open>else\<close> branch stops at the first column of the claims
  frame that the receivers frame has too and that ends in \<^verbatim>\<open>_ID\<close>.
\<close>

definition fallback_col :: "string list \<Rightarrow> string list \<Rightarrow> string option" where
  "fallback_col claims_cols receivers_cols =
     find (\<lambda>col. col \<in> set receivers_cols \<and> endswith col ''_ID'') claims_cols"

definition merge_receivers ::
  "dataframe \<Rightarrow> dataframe \<Rightarrow> dataframe \<Rightarrow> (exc + dataframe) \<times> merge_call list" where
  "merge_receivers claims receivers claims_with_details =
     (case receiver_key (columns claims) (columns receivers) of
        Some key \<Rightarrow>
          (let receiver_cols =
                 (if ''Name'' \<in> set (columns receivers) then [key, ''Name''] else [key])
           in case select_cols receiver_cols receivers of
                Inl e \<Rightarrow> (Inl e, [])
              | Inr sub \<Rightarrow> (merge_on claims_with_details sub key, [Merge_on key]))
      | None \<Rightarrow>
          (case fallback_col (columns claims) (columns receivers) of
             Some col \<Rightarrow>
               (if ''Name'' \<in> set (columns receivers)
                then (case select_cols [''Name''] receivers of
                        Inl e \<Rightarrow> (Inl e, [])
                      | Inr sub \<Rightarrow>
                          (merge_left_on claims_with_details sub col, [Merge_left_on col]))
                else (merge_left_on claims_with_details receivers col, [Merge_left_on col]))
           | None \<Rightarrow> (Inr claims_with_details, [])))"

text \<open>The body of the \<^verbatim>\<open>try\<close> block: both steps, stopping at the first exception.\<close>

definition claims_with_details ::
  "dataframe \<Rightarrow> dataframe \<Rightarrow> dataframe \<Rightarrow> (exc + dataframe) \<times> merge_call list" where
  "claims_with_details claims food_listings receivers =
     (case merge_food claims food_listings of
        (Inl e, calls) \<Rightarrow> (Inl e, calls)
      | (Inr d, calls) \<Rightarrow>
          (case merge_receivers claims receivers d of
             (r, calls') \<Rightarrow> (r, calls @ calls')))"

definition show_claims ::
  "dataframe \<Rightarrow> dataframe \<Rightarrow> dataframe \<Rightarrow> ui list \<times> merge_call list" where
  "show_claims claims food_listings receivers =
     (if df_empty claims \<or> df_empty food_listings \<or> df_empty receivers
      then ([St_header ''Claims'', St_warning ''No claims data available''], [])
      else
        (case claims_with_details claims food_listings receivers of
           (Inr d, calls) \<Rightarrow> ([St_header ''Claims'', St_dataframe d], calls)
         | (Inl e, calls) \<Rightarrow>
             ([St_header ''Claims'', St_error e, St_write ''Raw claims data:'',
               St_dataframe claims], calls)))"

section \<open>The database\<close>

text \<open>
  Modelled from the spec: the definitions of the four tables. The tables live in an
  external SQL Server database, and the source only names them in its statements. Their
  columns are taken from those statements and from the data model of the specification:
  an integer identity per table, text fields, and an integer \<^verbatim>\<open>Quantity\<close>, which is
  SQL Server's \<^verbatim>\<open>int\<close> here: 32 bits, read as a signed number. The field prefixes are
  the aliases the source's queries use (\<^verbatim>\<open>p.Name\<close>, \<^verbatim>\<open>f.Quantity\<close>, \<^verbatim>\<open>c.Status\<close>).
\<close>

record provider =
  p_Provider_ID :: int
  p_Name :: string
  p_Type :: string
  p_Address :: string
  p_City :: string
  p_Contact :: string

record receiver =
  r_Receiver_ID :: int
  r_Name :: string
  r_Type :: string
  r_City :: string
  r_Contact :: string

record food_listing =
  f_Food_ID :: int
  f_Food_Name :: string
  f_Quantity :: "32 word"
  f_Expiry_Date :: string
  f_Provider_ID :: int
  f_Provider_Type :: string
  f_Location :: string
  f_Food_Type :: string
  f_Meal_Type :: string

record claim =
  c_Claim_ID :: int
  c_Food_ID :: int
  c_Receiver_ID :: int
  c_Status :: string

record database =
  Providers :: "provider list"
  Receivers :: "receiver list"
  Food_Listings_Dataset :: "food_listing list"
  Claims :: "claim list"

subsection \<open>Full-table selects\<close>

definition provider_cells :: "provider \<Rightarrow> cell list" where
  "provider_cells p = [IntC (p_Provider_ID p), StrC (p_Name p), StrC (p_Type p),
                       StrC (p_Address p), StrC (p_City p), StrC (p_Contact p)]"

definition receiver_cells :: "receiver \<Rightarrow> cell list" where
  "receiver_cells r = [IntC (r_Receiver_ID r), StrC (r_Name r), StrC (r_Type r),
                       StrC (r_City r), StrC (r_Contact r)]"

definition food_listing_cells :: "food_listing \<Rightarrow> cell list" where
  "food_listing_cells f = [IntC (f_Food_ID f), StrC (f_Food_Name f),
                           IntC (sint (f_Quantity f)),
                           StrC (f_Expiry_Date f), IntC (f_Provider_ID f),
                           StrC (f_Provider_Type f), StrC (f_Location f),
                           StrC (f_Food_Type f), StrC (f_Meal_Type f)]"

definition claim_cells :: "claim \<Rightarrow> cell list" where
  "claim_cells c = [IntC (c_Claim_ID c), IntC (c_Food_ID c), IntC (c_Receiver_ID c),
                    StrC (c_Status c)]"

definition select_all :: "string \<Rightarrow> database \<Rightarrow> exc + dataframe" where
  "select_all table db =
     (if table = ''Providers'' then
        Inr \<lparr>columns = [''Provider_ID'', ''Name'', ''Type'', ''Address'', ''City'', ''Contact''],
             rows = map provider_cells (Providers db)\<rparr>
      else if table = ''Receivers'' then
        Inr \<lparr>columns = [''Receiver_ID'', ''Name'', ''Type'', ''City'', ''Contact''],
             rows = map receiver_cells (Receivers db)\<rparr>
      else if table = ''Food_Listings_Dataset'' then
        Inr \<lparr>columns = [''Food_ID'', ''Food_Name'', ''Quantity'', ''Expiry_Date'', ''Provider_ID'',
                        ''Provider_Type'', ''Location'', ''Food_Type'', ''Meal_Type''],
             rows = map food_listing_cells (Food_Listings_Dataset db)\<rparr>
      else if table = ''Claims'' then
        Inr \<lparr>columns = [''Claim_ID'', ''Food_ID'', ''Receiver_ID'', ''Status''],
             rows = map claim_cells (Claims db)\<rparr>
      else Inl ProgrammingError)"

subsection \<open>Report 1: providers and receivers per city\<close>

text \<open>
  The statements are written on one line; the source lays the same text out over
  several lines.
\<close>

definition query1 :: string where
  "query1 = ''SELECT City, COUNT(DISTINCT Provider_ID) AS Total_Providers, COUNT(DISTINCT Receiver_ID) AS Total_Receivers FROM ( SELECT City, Provider_ID, NULL AS Receiver_ID FROM Providers UNION ALL SELECT City, NULL AS Provider_ID, Receiver_ID FROM Receivers ) AS combined GROUP BY City ORDER BY City;''"

text \<open>The derived table \<^verbatim>\<open>combined\<close>: city, provider identity or NULL, receiver identity or NULL.\<close>

definition combined :: "database \<Rightarrow> (string \<times> int option \<times> int option) list" where
  "combined db =
     map (\<lambda>p. (p_City p, Some (p_Provider_ID p), None)) (Providers db) @
     map (\<lambda>r. (r_City r, None, Some (r_Receiver_ID r))) (Receivers db)"

text \<open>\<^verbatim>\<open>COUNT(DISTINCT x)\<close> counts the different values that are not NULL.\<close>

definition count_distinct :: "int option list \<Rightarrow> int" where
  "count_distinct xs = int (length (remdups (concat (map (\<lambda>x. case x of None \<Rightarrow> [] | Some v \<Rightarrow> [v]) xs))))"

definition city_row :: "(string \<times> int option \<times> int option) list \<Rightarrow> string \<Rightarrow> cell list" where
  "city_row comb city =
     (let grp = filter (\<lambda>row. fst row = city) comb
      in [StrC city,
          IntC (count_distinct (map (\<lambda>row. fst (snd row)) grp)),
          IntC (count_distinct (map (\<lambda>row. snd (snd row)) grp))])"

text \<open>
  One group per city, and \<^verbatim>\<open>ORDER BY City\<close> puts the groups in ascending order. City
  names are compared as the character strings they are (a binary collation), here and
  wherever text is grouped or matched.
\<close>

definition report1 :: "database \<Rightarrow> dataframe" where
  "report1 db =
     \<lparr>columns = [''City'', ''Total_Providers'', ''Total_Receivers''],
      rows = map (city_row (combined db)) (sort (remdups (map fst (combined db))))\<rparr>"

subsection \<open>Report 5: total quantity\<close>

definition query5 :: string where
  "query5 = ''SELECT SUM(Quantity) AS Total_Quantity_Available FROM Food_Listings_Dataset;''"

text \<open>
  \<^verbatim>\<open>SUM\<close> over no rows is NULL. Over an \<^verbatim>\<open>int\<close> column it is an \<^verbatim>\<open>int\<close>: a total
  that does not fit in 32 bits is an arithmetic overflow error of the statement. The
  check is on the total; when no quantity is negative, every partial sum fits exactly
  when the total does, in whatever order the server adds the rows.
\<close>

definition sql_sum :: "int list \<Rightarrow> exc + cell" where
  "sql_sum xs =
     (if xs = [] then Inr NullC
      else if - 2147483648 \<le> sum_list xs \<and> sum_list xs \<le> 2147483647
        then Inr (IntC (sum_list xs))
      else Inl ArithmeticOverflow)"

definition report5 :: "database \<Rightarrow> exc + dataframe" where
  "report5 db =
     (case sql_sum (map (\<lambda>f. sint (f_Quantity f)) (Food_Listings_Dataset db)) of
        Inl e \<Rightarrow> Inl e
      | Inr scalar \<Rightarrow>
          Inr \<lparr>columns = [''Total_Quantity_Available''], rows = [[scalar]]\<rparr>)"

subsection \<open>Report 10: claim status distribution\<close>

definition query10 :: string where
  "query10 = ''SELECT Status, COUNT(*) AS Count, ROUND((COUNT(*) * 100.0 / (SELECT COUNT(*) FROM Claims)), 2) AS Percentage FROM Claims GROUP BY Status;''"

text \<open>
  \<^verbatim>\<open>100.0\<close> is a decimal literal, so the arithmetic is exact decimal arithmetic, not
  floating point. Division by zero is an error of the statement. \<^verbatim>\<open>ROUND(x, 2)\<close> rounds
  to the nearest hundredth, halves away from zero. The quotient is taken exactly here:
  the server keeps more decimal places of it than the two that \<^verbatim>\<open>ROUND\<close> retains.
\<close>

definition sql_div :: "rat \<Rightarrow> int \<Rightarrow> exc + rat" where
  "sql_div x d = (if d = 0 then Inl DivideByZero else Inr (x / of_int d))"

definition sql_round2 :: "rat \<Rightarrow> rat" where
  "sql_round2 x =
     (if 0 \<le> x then of_int \<lfloor>x * 100 + 1 / 2\<rfloor> / 100
      else - (of_int \<lfloor>- x * 100 + 1 / 2\<rfloor> / 100))"

definition status_count :: "claim list \<Rightarrow> string \<Rightarrow> int" where
  "status_count cs s = int (length (filter (\<lambda>c. c_Status c = s) cs))"

text \<open>The select list, evaluated for one group.\<close>

definition status_row :: "claim list \<Rightarrow> string \<Rightarrow> exc + cell list" where
  "status_row cs s =
     (case sql_div (of_int (status_count cs s) * 100) (int (length cs)) of
        Inl e \<Rightarrow> Inl e
      | Inr q \<Rightarrow> Inr [StrC s, IntC (status_count cs s), NumC (sql_round2 q)])"

fun collect :: "(exc + 'a) list \<Rightarrow> exc + 'a list" where
  "collect [] = Inr []"
| "collect (Inl e # xs) = Inl e"
| "collect (Inr x # xs) = (case collect xs of Inl e \<Rightarrow> Inl e | Inr ys \<Rightarrow> Inr (x # ys))"

text \<open>
  \<^verbatim>\<open>GROUP BY Status\<close> makes one group per status that occurs. The statement has no
  \<^verbatim>\<open>ORDER BY\<close>, so the order of the groups is the server's; here they come in the order
  of \<^const>\<open>remdups\<close>, and nothing below depends on it.
\<close>

definition report10 :: "database \<Rightarrow> exc + dataframe" where
  "report10 db =
     (case collect (map (status_row (Claims db)) (remdups (map c_Status (Claims db)))) of
        Inl e \<Rightarrow> Inl e
      | Inr rs \<Rightarrow> Inr \<lparr>columns = [''Status'', ''Count'', ''Percentage''], rows = rs\<rparr>)"

subsection \<open>Reading: \<^verbatim>\<open>pd.read_sql\<close>\<close>

text \<open>
  The server is modelled on the statements studied here: the four full-table selects
  and reports 1, 5 and 10. The other reports of the source are not modelled, and any
  other text is answered with \<^verbatim>\<open>ProgrammingError\<close>, as a malformed statement is.
\<close>

definition read_sql :: "string \<Rightarrow> database \<Rightarrow> exc + dataframe" where
  "read_sql query db =
     (if query = query1 then Inr (report1 db)
      else if query = query5 then report5 db
      else if query = query10 then report10 db
      else if take 14 query = ''SELECT * FROM '' then select_all (drop 14 query) db
      else Inl ProgrammingError)"

subsection \<open>Writing: \<^verbatim>\<open>cursor.execute\<close>\<close>

definition insert_provider_sql :: string where
  "insert_provider_sql =
     ''INSERT INTO Providers (Name, Type, Address, City, Contact) VALUES (?, ?, ?, ?, ?)''"

definition insert_receiver_sql :: string where
  "insert_receiver_sql =
     ''INSERT INTO Receivers (Name, Type, City, Contact) VALUES (?, ?, ?, ?)''"

definition update_provider_sql :: string where
  "update_provider_sql =
     ''UPDATE Providers SET Name=?, Type=?, Address=?, City=?, Contact=? WHERE Provider_ID=?''"

text \<open>
  Modelled from the spec: the identity column of a table. The table definitions are not
  in the source; the specification calls \<^verbatim>\<open>Provider_ID\<close> and \<^verbatim>\<open>Receiver_ID\<close> the
  identities of their tables, and the inserts leave them out, so the server assigns
  them. The value assigned is one that no row of the table has.
\<close>

definition fresh_id :: "int list \<Rightarrow> int" where
  "fresh_id ids = fold max ids 0 + 1"

definition update_provider ::
  "string \<Rightarrow> string \<Rightarrow> string \<Rightarrow> string \<Rightarrow> string \<Rightarrow> int \<Rightarrow> provider \<Rightarrow> provider" where
  "update_provider name type address city contact ident p =
     (if p_Provider_ID p = ident
      then p\<lparr>p_Name := name, p_Type := type, p_Address := address, p_City := city,
             p_Contact := contact\<rparr>
      else p)"

text \<open>
  A statement is executed with the positional parameters the program passes: text for
  the text columns, an integer for the identity. A parameter list of another length is
  refused by the driver (\<^verbatim>\<open>ProgrammingError\<close>: the statement has as many markers as it
  has); parameters of other kinds are not sent by the program and are answered with
  \<^verbatim>\<open>DataError\<close>. A statement the model does not know is answered like a malformed one.
\<close>

fun cursor_execute :: "string \<Rightarrow> cell list \<Rightarrow> database \<Rightarrow> exc + database" where
  "cursor_execute query params db =
     (if query = insert_provider_sql then
        (case params of
           [StrC name, StrC type, StrC address, StrC city, StrC contact] \<Rightarrow>
             Inr (db\<lparr>Providers := Providers db @
                    [\<lparr>p_Provider_ID = fresh_id (map p_Provider_ID (Providers db)),
                      p_Name = name, p_Type = type, p_Address = address, p_City = city,
                      p_Contact = contact\<rparr>]\<rparr>)
         | _ \<Rightarrow> if length params = 5 then Inl DataError else Inl ProgrammingError)
      else if query = insert_receiver_sql then
        (case params of
           [StrC name, StrC type, StrC city, StrC contact] \<Rightarrow>
             Inr (db\<lparr>Receivers := Receivers db @
                    [\<lparr>r_Receiver_ID = fresh_id (map r_Receiver_ID (Receivers db)),
                      r_Name = name, r_Type = type, r_City = city, r_Contact = contact\<rparr>]\<rparr>)
         | _ \<Rightarrow> if length params = 4 then Inl DataError else Inl ProgrammingError)
      else if query = update_provider_sql then
        (case params of
           [StrC name, StrC type, StrC address, StrC city, StrC contact, IntC ident] \<Rightarrow>
             Inr (db\<lparr>Providers :=
                    map (update_provider name type address city contact ident) (Providers db)\<rparr>)
         | _ \<Rightarrow> if length params = 6 then Inl DataError else Inl ProgrammingError)
      else Inl ProgrammingError)"

section \<open>The data access layer\<close>

text \<open>
  The global \<^verbatim>\<open>conn\<close> is \<^verbatim>\<open>None\<close> or a connection; a connection stands for the
  database behind it, so it is modelled by the database's state. A raised exception is
  the \<^const>\<open>Inl\<close> result, and then the state is the one before the call.

  \<^verbatim>\<open>load_data\<close> is decorated with \<^verbatim>\<open>st.cache_data\<close>: the result of a call is stored
  under the query text and returned for every later call with that text. Nothing in the
  source clears the store.
\<close>

type_synonym cache = "string \<Rightarrow> dataframe option"

definition load_data ::
  "string \<Rightarrow> cache \<Rightarrow> database option \<Rightarrow> exc + (dataframe \<times> cache)" where
  "load_data query cache conn =
     (case cache query of
        Some df \<Rightarrow> Inr (df, cache)
      | None \<Rightarrow>
          (case conn of
             Some db \<Rightarrow>
               (case read_sql query db of
                  Inl e \<Rightarrow> Inl e
                | Inr df \<Rightarrow> Inr (df, cache(query \<mapsto> df)))
           | None \<Rightarrow> Inr (DataFrame, cache(query \<mapsto> DataFrame))))"

text \<open>
  \<^verbatim>\<open>execute_query\<close>: \<^verbatim>\<open>if params:\<close> is false for \<^verbatim>\<open>None\<close> and for the empty list, and
  then the statement is executed without parameters. \<^verbatim>\<open>conn.commit()\<close> makes the
  change permanent; the model's state is the committed one. There is no \<^verbatim>\<open>try\<close> in the
  function.
\<close>

definition execute_query ::
  "string \<Rightarrow> cell list option \<Rightarrow> database option \<Rightarrow> exc + (bool \<times> database option)" where
  "execute_query query params conn =
     (case conn of
        Some db \<Rightarrow>
          (case (if params \<noteq> None \<and> params \<noteq> Some []
                 then cursor_execute query (the params) db
                 else cursor_execute query [] db) of
             Inl e \<Rightarrow> Inl e
           | Inr db' \<Rightarrow> Inr (True, Some db'))
      | None \<Rightarrow> Inr (False, None))"

section \<open>The CRUD forms\<close>

text \<open>
  A form's input is what the user typed and whether the submit button was pressed. A view
  returns the Streamlit calls it made and the state it leaves, or the exception that
  ended it. \<^verbatim>\<open>show_create_form\<close> has a branch for Providers and one for Receivers.
\<close>

record create_form =
  cf_name :: string
  cf_type :: string
  cf_address :: string
  cf_city :: string
  cf_contact :: string
  cf_submitted :: bool

definition show_create_form ::
  "string \<Rightarrow> create_form \<Rightarrow> database option \<Rightarrow> exc + (ui list \<times> database option)" where
  "show_create_form table form conn =
     (if table = ''Providers'' then
        (if cf_submitted form then
           (case execute_query insert_provider_sql
                   (Some [StrC (cf_name form), StrC (cf_type form), StrC (cf_address form),
                          StrC (cf_city form), StrC (cf_contact form)]) conn of
              Inl e \<Rightarrow> Inl e
            | Inr (ok, conn') \<Rightarrow>
                if ok
                then Inr ([St_subheader (''Add New '' @ table),
                           St_success ''Provider added successfully!'', St_rerun], conn')
                else Inr ([St_subheader (''Add New '' @ table)], conn'))
         else Inr ([St_subheader (''Add New '' @ table)], conn))
      else if table = ''Receivers'' then
        (if cf_submitted form then
           (case execute_query insert_receiver_sql
                   (Some [StrC (cf_name form), StrC (cf_type form), StrC (cf_city form),
                          StrC (cf_contact form)]) conn of
              Inl e \<Rightarrow> Inl e
            | Inr (ok, conn') \<Rightarrow>
                if ok
                then Inr ([St_subheader (''Add New '' @ table),
                           St_success ''Receiver added successfully!'', St_rerun], conn')
                else Inr ([St_subheader (''Add New '' @ table)], conn'))
         else Inr ([St_subheader (''Add New '' @ table)], conn))
      else Inr ([St_subheader (''Add New '' @ table)], conn))"


text \<open>
  The update form. The user picks an identity from the select box; a field left alone
  keeps the value of the selected row. The select box for the type is positioned with
  \<^verbatim>\<open>list.index\<close>, which raises \<^verbatim>\<open>ValueError\<close> when the selected row's type is not
  one of the four options. Only the Providers branch has fields and a submit button.
\<close>

record update_form =
  uf_choice :: nat
  uf_name :: "string option"
  uf_type :: "string option"
  uf_address :: "string option"
  uf_city :: "string option"
  uf_contact :: "string option"
  uf_submitted :: bool

definition id_col :: "string \<Rightarrow> string" where
  "id_col table =
     (if table = ''Providers'' then ''Provider_ID''
      else if table = ''Receivers'' then ''Receiver_ID''
      else if table = ''Food_Listings_Dataset'' then ''Food_ID''
      else ''Claim_ID'')"

text \<open>\<^verbatim>\<open>data[name].tolist()\<close>\<close>

definition column_values :: "dataframe \<Rightarrow> string \<Rightarrow> exc + cell list" where
  "column_values data name =
     (if name \<in> set (columns data)
      then Inr (map (\<lambda>r. lookup_cell (columns data) r name) (rows data))
      else Inl KeyError)"

text \<open>A select box returns the option chosen, the first one when nothing was chosen.\<close>

definition selectbox :: "'a list \<Rightarrow> nat \<Rightarrow> 'a" where
  "selectbox options choice = (if choice < length options then options ! choice else hd options)"

definition widget :: "string \<Rightarrow> string option \<Rightarrow> string" where
  "widget current typed = (case typed of None \<Rightarrow> current | Some v \<Rightarrow> v)"

definition as_text :: "cell \<Rightarrow> string" where
  "as_text c = (case c of StrC s \<Rightarrow> s | _ \<Rightarrow> [])"

definition provider_types :: "string list" where
  "provider_types = [''Supermarket'', ''Grocery Store'', ''Restaurant'', ''Catering Service'']"

definition show_update_form ::
  "string \<Rightarrow> update_form \<Rightarrow> cache \<Rightarrow> database option \<Rightarrow>
     exc + (ui list \<times> cache \<times> database option)" where
  "show_update_form table form cache conn =
     (case load_data (''SELECT * FROM '' @ table) cache conn of
        Inl e \<Rightarrow> Inl e
      | Inr (data, cache') \<Rightarrow>
          if df_empty data
          then Inr ([St_subheader (''Update '' @ table), St_warning ''No data available''],
                    cache', conn)
          else
            (case column_values data (id_col table) of
               Inl e \<Rightarrow> Inl e
             | Inr ids \<Rightarrow>
                 (let selected_id = selectbox ids (uf_choice form) in
                  case find (\<lambda>r. lookup_cell (columns data) r (id_col table) = selected_id)
                         (rows data) of
                    None \<Rightarrow> Inl IndexError
                  | Some selected_row \<Rightarrow>
                      if table = ''Providers'' then
                        (if as_text (lookup_cell (columns data) selected_row ''Type'')
                              \<in> set provider_types
                         then
                           (let name = widget (as_text (lookup_cell (columns data) selected_row ''Name'')) (uf_name form);
                                type = widget (as_text (lookup_cell (columns data) selected_row ''Type'')) (uf_type form);
                                address = widget (as_text (lookup_cell (columns data) selected_row ''Address'')) (uf_address form);
                                city = widget (as_text (lookup_cell (columns data) selected_row ''City'')) (uf_city form);
                                contact = widget (as_text (lookup_cell (columns data) selected_row ''Contact'')) (uf_contact form)
                            in if uf_submitted form then
                                 (case execute_query update_provider_sql
                                         (Some [StrC name, StrC type, StrC address, StrC city,
                                                StrC contact, selected_id]) conn of
                                    Inl e \<Rightarrow> Inl e
                                  | Inr (ok, conn') \<Rightarrow>
                                      if ok
                                      then Inr ([St_subheader (''Update '' @ table),
                                                 St_success ''Provider updated successfully!'',
                                                 St_rerun], cache', conn')
                                      else Inr ([St_subheader (''Update '' @ table)], cache', conn'))
                               else Inr ([St_subheader (''Update '' @ table)], cache', conn))
                         else Inl ValueError)
                      else Inr ([St_subheader (''Update '' @ table)], cache', conn))))"

section \<open>The queries view\<close>

text \<open>
  What \<^verbatim>\<open>show_queries\<close> does with one report inside its loop: the statement's text, the
  result when it is not empty, and the chart.
\<close>

definition render_result :: "string \<Rightarrow> dataframe \<Rightarrow> ui list" where
  "render_result query result =
     St_code query #
     (if \<not> df_empty result then
        St_dataframe result #
        (if 2 \<le> length (columns result) \<and> 1 < length (rows result) then
           (if contains ''Total'' (last (columns result)) \<or> contains ''Count'' (last (columns result))
            then [St_plotly_chart (Bar (hd (columns result)) (last (columns result)))]
            else [])
         else [])
      else [])"

section \<open>The EDA view, tab 5\<close>

text \<open>\<^verbatim>\<open>df.iloc[0][name]\<close>: the named cell of the first row.\<close>

definition iloc0 :: "dataframe \<Rightarrow> string \<Rightarrow> exc + cell" where
  "iloc0 df name =
     (case rows df of
        [] \<Rightarrow> Inl IndexError
      | r # rs \<Rightarrow>
          if name \<in> set (columns df) then Inr (lookup_cell (columns df) r name)
          else Inl KeyError)"

text \<open>
  The format \<^verbatim>\<open>{total_quantity:,}\<close> writes a number with thousands separators.
  \<^verbatim>\<open>None\<close>, which is what a NULL cell of this one-cell frame is read as, has no such
  format (\<^verbatim>\<open>TypeError\<close>), and text has none either (\<^verbatim>\<open>ValueError\<close>). The metric
  of the model keeps the number that is written; its text is that number with the
  separators, followed by \<^verbatim>\<open>units\<close>.
\<close>

definition format_thousands :: "cell \<Rightarrow> exc + cell" where
  "format_thousands c =
     (case c of
        IntC i \<Rightarrow> Inr (IntC i)
      | NumC q \<Rightarrow> Inr (NumC q)
      | StrC s \<Rightarrow> Inl ValueError
      | NullC \<Rightarrow> Inl TypeError)"

text \<open>The block of \<^verbatim>\<open>show_eda_analysis\<close> under \<^verbatim>\<open>with tab5\<close>.\<close>

definition show_eda_analysis_tab5 ::
  "cache \<Rightarrow> database option \<Rightarrow> exc + (ui list \<times> cache)" where
  "show_eda_analysis_tab5 cache conn =
     (case load_data query5 cache conn of
        Inl e \<Rightarrow> Inl e
      | Inr (result5, cache') \<Rightarrow>
          if \<not> df_empty result5 then
            (case iloc0 result5 ''Total_Quantity_Available'' of
               Inl e \<Rightarrow> Inl e
             | Inr total_quantity \<Rightarrow>
                 (case format_thousands total_quantity of
                    Inl e \<Rightarrow> Inl e
                  | Inr shown \<Rightarrow>
                      Inr ([St_subheader ''Query 5: Total Quantity of Food Available'',
                            St_metric ''Total Food Available'' shown,
                            St_dataframe result5], cache')))
          else Inr ([St_subheader ''Query 5: Total Quantity of Food Available''], cache'))"

section \<open>Fixtures\<close>

definition claims_fx :: dataframe where
  "claims_fx = \<lparr>columns = [''Claim_ID'', ''Food_ID'', ''ReceiverID'', ''Status''],
     rows = [[IntC 1, IntC 7, IntC 3, StrC ''Pending''],
             [IntC 2, IntC 8, IntC 4, StrC ''Completed'']]\<rparr>"

definition food_fx :: dataframe where
  "food_fx = \<lparr>columns = [''Food_ID'', ''Food_Name'', ''Quantity''],
     rows = [[IntC 7, StrC ''Bread'', IntC 10]]\<rparr>"

definition receivers_fx :: dataframe where
  "receivers_fx = \<lparr>columns = [''ReceiverID'', ''Name'', ''City''],
     rows = [[IntC 3, StrC ''Shelter One'', StrC ''Adambury'']]\<rparr>"

definition claims_text_key_fx :: dataframe where
  "claims_text_key_fx = \<lparr>columns = [''Claim_ID'', ''Food_ID'', ''ReceiverID'', ''Status''],
     rows = [[IntC 1, IntC 7, StrC ''3'', StrC ''Pending'']]\<rparr>"

definition claims_nokey_fx :: dataframe where
  "claims_nokey_fx = \<lparr>columns = [''Claim_ID'', ''Food_ID'', ''Receiver'', ''Status''],
     rows = [[IntC 1, IntC 7, IntC 3, StrC ''Pending'']]\<rparr>"

definition receivers_nokey_fx :: dataframe where
  "receivers_nokey_fx = \<lparr>columns = [''Receiver_ID'', ''Name'', ''City''],
     rows = [[IntC 3, StrC ''Shelter One'', StrC ''Adambury'']]\<rparr>"

definition listing_fx :: "int \<Rightarrow> string \<Rightarrow> 32 word \<Rightarrow> food_listing" where
  "listing_fx ident name quantity =
     \<lparr>f_Food_ID = ident, f_Food_Name = name, f_Quantity = quantity,
      f_Expiry_Date = ''2025-03-17'', f_Provider_ID = 1, f_Provider_Type = ''Supermarket'',
      f_Location = ''Adambury'', f_Food_Type = ''Vegetarian'', f_Meal_Type = ''Lunch''\<rparr>"

definition db_fx :: database where
  "db_fx =
     \<lparr>Providers =
        [\<lparr>p_Provider_ID = 1, p_Name = ''Fresh Mart'', p_Type = ''Supermarket'',
          p_Address = ''1 Main St'', p_City = ''Adambury'', p_Contact = ''555-0100''\<rparr>,
         \<lparr>p_Provider_ID = 2, p_Name = ''Corner Cafe'', p_Type = ''Restaurant'',
          p_Address = ''2 High St'', p_City = ''Zenith'', p_Contact = ''555-0101''\<rparr>],
      Receivers =
        [\<lparr>r_Receiver_ID = 1, r_Name = ''Shelter One'', r_Type = ''Shelter'',
          r_City = ''Adambury'', r_Contact = ''555-0200''\<rparr>],
      Food_Listings_Dataset =
        [listing_fx 1 ''Bread'' 10, listing_fx 2 ''Soup'' 5, listing_fx 3 ''Rice'' 20],
      Claims =
        [\<lparr>c_Claim_ID = 1, c_Food_ID = 1, c_Receiver_ID = 1, c_Status = ''Completed''\<rparr>,
         \<lparr>c_Claim_ID = 2, c_Food_ID = 2, c_Receiver_ID = 1, c_Status = ''Pending''\<rparr>,
         \<lparr>c_Claim_ID = 3, c_Food_ID = 3, c_Receiver_ID = 1, c_Status = ''Canceled''\<rparr>]\<rparr>"

definition large_db_fx :: database where
  "large_db_fx =
     \<lparr>Providers = [], Receivers = [],
      Food_Listings_Dataset = [listing_fx 1 ''Bread'' 2147483647, listing_fx 2 ''Soup'' 1],
      Claims = []\<rparr>"

definition empty_db :: database where
  "empty_db = \<lparr>Providers = [], Receivers = [], Food_Listings_Dataset = [], Claims = []\<rparr>"


definition update_form_fx :: update_form where
  "update_form_fx =
     \<lparr>uf_choice = 0, uf_name = Some ''Shelter Two'', uf_type = None, uf_address = None,
      uf_city = None, uf_contact = None, uf_submitted = True\<rparr>"

section \<open>Properties of the claims view\<close>

lemma df_empty_DataFrame: "df_empty DataFrame"
  by (simp add: df_empty_def DataFrame_def)

lemma endswith_iff: "endswith s suf \<longleftrightarrow> (\<exists>p. s = p @ suf)"
proof
  assume "endswith s suf"
  then have "s = take (length s - length suf) s @ suf"
    by (metis append_take_drop_id endswith_def)
  then show "\<exists>p. s = p @ suf" ..
next
  assume "\<exists>p. s = p @ suf"
  then show "endswith s suf" by (auto simp: endswith_def)
qed

lemma select_cols_Inr:
  "set names \<subseteq> set (columns df) \<Longrightarrow>
   select_cols names df =
     Inr \<lparr>columns = names, rows = map (\<lambda>r. map (lookup_cell (columns df) r) names) (rows df)\<rparr>"
  by (auto simp: select_cols_def)

lemma set_drop_col: "set (drop_col key cols cols) \<subseteq> set cols"
  by (auto simp: drop_col_def dest: set_zip_rightD)

lemma merge_on_keeps_column:
  assumes "merge_on left right key = Inr d" and "k \<in> set (columns left)"
    and "k \<notin> set (columns right)"
  shows "k \<in> set (columns d)"
proof -
  have "k \<notin> set (drop_col key (columns right) (columns right))"
    using assms(3) set_drop_col by blast
  then have "k \<in> set (map (\<lambda>c. if c \<noteq> key \<and> c \<in> set (drop_col key (columns right) (columns right))
                                 then c @ ''_x'' else c) (columns left))"
    using assms(2) by force
  moreover have "key \<in> set (columns left) \<and> key \<in> set (columns right)"
    using assms(1) by (simp add: merge_on_def split: if_splits)
  ultimately show ?thesis
    using assms(1) by (auto simp: merge_on_def Let_def split: if_splits)
qed

text \<open>
  The food step: the columns it selects are columns of the listings, and \<^verbatim>\<open>Food_ID\<close>
  is among them whenever the merge is reached, so the selection cannot raise.
\<close>

lemma merge_food_unfold:
  "merge_food claims food_listings =
     (if ''Food_ID'' \<in> set (columns claims) \<and> ''Food_ID'' \<in> set (columns food_listings)
      then (merge_on claims
              \<lparr>columns = available_food_cols food_listings,
               rows = map (\<lambda>r. map (lookup_cell (columns food_listings) r)
                                 (available_food_cols food_listings)) (rows food_listings)\<rparr>
              ''Food_ID'', [Merge_on ''Food_ID''])
      else (Inr claims, []))"
proof -
  have 1: "set (available_food_cols food_listings) \<subseteq> set (columns food_listings)"
    by (auto simp: available_food_cols_def)
  have 2: "''Food_ID'' \<in> set (columns food_listings) \<Longrightarrow> available_food_cols food_listings \<noteq> []"
    by (auto simp: available_food_cols_def food_cols_def)
  show ?thesis
    unfolding merge_food_def Let_def
    using 2 by (simp add: select_cols_Inr[OF 1])
qed

lemma merge_food_keeps_column:
  assumes "merge_food claims food_listings = (Inr d, calls)"
    and "k \<in> set (columns claims)" and "k \<notin> set food_cols"
  shows "k \<in> set (columns d)"
proof (cases "''Food_ID'' \<in> set (columns claims) \<and> ''Food_ID'' \<in> set (columns food_listings)")
  case True
  let ?sub = "\<lparr>columns = available_food_cols food_listings,
               rows = map (\<lambda>r. map (lookup_cell (columns food_listings) r)
                                 (available_food_cols food_listings)) (rows food_listings)\<rparr>"
  from True assms(1) have "merge_on claims ?sub ''Food_ID'' = Inr d"
    by (simp add: merge_food_unfold)
  moreover have "k \<notin> set (columns ?sub)"
    using assms(3) by (simp add: available_food_cols_def)
  ultimately show ?thesis
    using assms(2) merge_on_keeps_column by blast
next
  case False
  with assms show ?thesis by (simp add: merge_food_unfold)
qed

lemma receiver_key_find:
  "receiver_key cc rc =
     find (\<lambda>k. k \<in> set cc \<and> k \<in> set rc) [''Receiver_ID'', ''ReceiverID'', ''ReceiverId'']"
  by (simp add: receiver_key_def)

lemma receiver_key_cases:
  "receiver_key cc rc = Some key \<Longrightarrow>
     key \<in> {''Receiver_ID'', ''ReceiverID'', ''ReceiverId''} \<and> key \<in> set cc \<and> key \<in> set rc"
  by (auto simp: receiver_key_def split: if_splits)

lemma fallback_col_None:
  "fallback_col cc rc = None \<longleftrightarrow>
     (\<forall>col \<in> set cc. \<not> (col \<in> set rc \<and> (\<exists>p. col = p @ ''_ID'')))"
  by (auto simp: fallback_col_def find_None_iff endswith_iff)

lemmas frame_eval = df_empty_def merge_food_def available_food_cols_def food_cols_def
  select_cols_def merge_on_def merge_row_def drop_col_def lookup_cell_def Let_def
  mergeable_def key_cells_def numeric_column_def is_number_def is_text_def

lemma merge_food_fx:
  "merge_food claims_fx food_fx =
     (Inr \<lparr>columns = [''Claim_ID'', ''Food_ID'', ''ReceiverID'', ''Status'', ''Food_Name''],
           rows = [[IntC 1, IntC 7, IntC 3, StrC ''Pending'', StrC ''Bread''],
                   [IntC 2, IntC 8, IntC 4, StrC ''Completed'', NullC]]\<rparr>,
      [Merge_on ''Food_ID''])"
  by (simp add: claims_fx_def food_fx_def frame_eval)

text \<open>
  C1 (amended). With the three frames non-empty: the receiver key is the first of
  \<^verbatim>\<open>Receiver_ID\<close>, \<^verbatim>\<open>ReceiverID\<close>, \<^verbatim>\<open>ReceiverId\<close> that is a column of both the
  claims and the receivers frame. With \<open>d\<close> the claims frame after the food step: when
  there is a key, it is a column of \<open>d\<close>, and \<open>d\<close> is left-merged on it with the
  receivers' key and \<^verbatim>\<open>Name\<close> columns; the merged frame is displayed, or, if the merge
  raises, the error and the raw claims. When there is no key and no column ending in
  \<^verbatim>\<open>_ID\<close> is shared either, the receiver join is skipped and \<open>d\<close> (the claims with the
  food details merged in, not the raw claims) is displayed. And whenever the \<^verbatim>\<open>try\<close>
  block raises, the error is shown followed by the raw claims frame.
\<close>

theorem show_claims_receiver_join:
  assumes nonempty: "\<not> df_empty claims" "\<not> df_empty food_listings" "\<not> df_empty receivers"
  shows "receiver_key (columns claims) (columns receivers) =
           find (\<lambda>k. k \<in> set (columns claims) \<and> k \<in> set (columns receivers))
             [''Receiver_ID'', ''ReceiverID'', ''ReceiverId'']
       \<and> (\<forall>d calls key.
            merge_food claims food_listings = (Inr d, calls)
            \<and> receiver_key (columns claims) (columns receivers) = Some key \<longrightarrow>
            (\<exists>sub. select_cols (if ''Name'' \<in> set (columns receivers) then [key, ''Name''] else [key])
                      receivers = Inr sub
                \<and> key \<in> set (columns d) \<and> key \<in> set (columns sub)
                \<and> show_claims claims food_listings receivers =
                    (case merge_on d sub key of
                       Inr m \<Rightarrow> ([St_header ''Claims'', St_dataframe m], calls @ [Merge_on key])
                     | Inl e \<Rightarrow>
                         ([St_header ''Claims'', St_error e, St_write ''Raw claims data:'',
                           St_dataframe claims], calls @ [Merge_on key]))))
       \<and> (\<forall>d calls.
            merge_food claims food_listings = (Inr d, calls)
            \<and> receiver_key (columns claims) (columns receivers) = None
            \<and> (\<forall>col \<in> set (columns claims).
                  \<not> (col \<in> set (columns receivers) \<and> (\<exists>p. col = p @ ''_ID''))) \<longrightarrow>
            show_claims claims food_listings receivers =
              ([St_header ''Claims'', St_dataframe d], calls))
       \<and> (\<forall>e calls. claims_with_details claims food_listings receivers = (Inl e, calls) \<longrightarrow>
            show_claims claims food_listings receivers =
              ([St_header ''Claims'', St_error e, St_write ''Raw claims data:'',
                St_dataframe claims], calls))"
proof (intro conjI allI impI)
  show "receiver_key (columns claims) (columns receivers) =
           find (\<lambda>k. k \<in> set (columns claims) \<and> k \<in> set (columns receivers))
             [''Receiver_ID'', ''ReceiverID'', ''ReceiverId'']"
    by (rule receiver_key_find)
next
  fix d calls key
  assume a: "merge_food claims food_listings = (Inr d, calls)
            \<and> receiver_key (columns claims) (columns receivers) = Some key"
  then have food: "merge_food claims food_listings = (Inr d, calls)"
    and key: "receiver_key (columns claims) (columns receivers) = Some key"
    by simp_all
  let ?cols = "if ''Name'' \<in> set (columns receivers) then [key, ''Name''] else [key]"
  let ?sub = "\<lparr>columns = ?cols,
               rows = map (\<lambda>r. map (lookup_cell (columns receivers) r) ?cols) (rows receivers)\<rparr>"
  from receiver_key_cases[OF key]
  have k: "key \<in> {''Receiver_ID'', ''ReceiverID'', ''ReceiverId''}"
    "key \<in> set (columns claims)" "key \<in> set (columns receivers)"
    by auto
  have sub: "select_cols ?cols receivers = Inr ?sub"
    using k(3) by (intro select_cols_Inr) auto
  have "key \<notin> set food_cols"
    using k(1) by (auto simp: food_cols_def)
  then have in_d: "key \<in> set (columns d)"
    using merge_food_keeps_column[OF food k(2)] by simp
  have in_sub: "key \<in> set (columns ?sub)"
    by simp
  have "merge_receivers claims receivers d = (merge_on d ?sub key, [Merge_on key])"
    using key sub by (simp add: merge_receivers_def Let_def)
  then have "show_claims claims food_listings receivers =
      (case merge_on d ?sub key of
         Inr m \<Rightarrow> ([St_header ''Claims'', St_dataframe m], calls @ [Merge_on key])
       | Inl e \<Rightarrow>
           ([St_header ''Claims'', St_error e, St_write ''Raw claims data:'',
             St_dataframe claims], calls @ [Merge_on key]))"
    using nonempty food
    by (simp add: show_claims_def claims_with_details_def split: sum.splits)
  with sub in_d in_sub
  show "\<exists>sub. select_cols ?cols receivers = Inr sub
                \<and> key \<in> set (columns d) \<and> key \<in> set (columns sub)
                \<and> show_claims claims food_listings receivers =
                    (case merge_on d sub key of
                       Inr m \<Rightarrow> ([St_header ''Claims'', St_dataframe m], calls @ [Merge_on key])
                     | Inl e \<Rightarrow>
                         ([St_header ''Claims'', St_error e, St_write ''Raw claims data:'',
                           St_dataframe claims], calls @ [Merge_on key]))"
    by (intro exI[of _ ?sub] conjI)
next
  fix d calls
  assume a: "merge_food claims food_listings = (Inr d, calls)
            \<and> receiver_key (columns claims) (columns receivers) = None
            \<and> (\<forall>col \<in> set (columns claims).
                  \<not> (col \<in> set (columns receivers) \<and> (\<exists>p. col = p @ ''_ID'')))"
  then have "fallback_col (columns claims) (columns receivers) = None"
    by (simp add: fallback_col_None)
  with a have "merge_receivers claims receivers d = (Inr d, [])"
    by (simp add: merge_receivers_def)
  with a show "show_claims claims food_listings receivers =
              ([St_header ''Claims'', St_dataframe d], calls)"
    using nonempty by (simp add: show_claims_def claims_with_details_def)
next
  fix e calls
  assume "claims_with_details claims food_listings receivers = (Inl e, calls)"
  then show "show_claims claims food_listings receivers =
              ([St_header ''Claims'', St_error e, St_write ''Raw claims data:'',
                St_dataframe claims], calls)"
    using nonempty by (simp add: show_claims_def)
qed

text \<open>
  The theorem at the fixture whose claims and receivers both call the key
  \<^verbatim>\<open>ReceiverID\<close>: one merged row per claim, with the receiver's name where there is one.
  And at the same fixture with the claims' \<^verbatim>\<open>ReceiverID\<close> held as text: the merge
  raises, and the raw claims are shown.
\<close>

theorem show_claims_receiver_join_witness:
  "\<not> df_empty claims_fx \<and> \<not> df_empty food_fx \<and> \<not> df_empty receivers_fx
   \<and> receiver_key (columns claims_fx) (columns receivers_fx) = Some ''ReceiverID''
   \<and> show_claims claims_fx food_fx receivers_fx =
       ([St_header ''Claims'',
         St_dataframe
           \<lparr>columns = [''Claim_ID'', ''Food_ID'', ''ReceiverID'', ''Status'', ''Food_Name'', ''Name''],
            rows = [[IntC 1, IntC 7, IntC 3, StrC ''Pending'', StrC ''Bread'', StrC ''Shelter One''],
                    [IntC 2, IntC 8, IntC 4, StrC ''Completed'', NullC, NullC]]\<rparr>],
        [Merge_on ''Food_ID'', Merge_on ''ReceiverID''])
   \<and> \<not> df_empty claims_text_key_fx
   \<and> claims_with_details claims_text_key_fx food_fx receivers_fx =
       (Inl ValueError, [Merge_on ''Food_ID'', Merge_on ''ReceiverID''])
   \<and> show_claims claims_text_key_fx food_fx receivers_fx =
       ([St_header ''Claims'', St_error ValueError, St_write ''Raw claims data:'',
         St_dataframe claims_text_key_fx],
        [Merge_on ''Food_ID'', Merge_on ''ReceiverID''])"
proof -
  let ?d = "\<lparr>columns = [''Claim_ID'', ''Food_ID'', ''ReceiverID'', ''Status'', ''Food_Name''],
             rows = [[IntC 1, IntC 7, IntC 3, StrC ''Pending'', StrC ''Bread''],
                     [IntC 2, IntC 8, IntC 4, StrC ''Completed'', NullC]]\<rparr>"
  have ne: "\<not> df_empty claims_fx" "\<not> df_empty food_fx" "\<not> df_empty receivers_fx"
    by (simp_all add: claims_fx_def food_fx_def receivers_fx_def df_empty_def)
  have key: "receiver_key (columns claims_fx) (columns receivers_fx) = Some ''ReceiverID''"
    by (simp add: receiver_key_def claims_fx_def receivers_fx_def)
  from show_claims_receiver_join[OF ne] merge_food_fx key
  obtain sub where
    sub: "select_cols (if ''Name'' \<in> set (columns receivers_fx) then [''ReceiverID'', ''Name'']
                       else [''ReceiverID'']) receivers_fx = Inr sub"
    and shown: "show_claims claims_fx food_fx receivers_fx =
                  (case merge_on ?d sub ''ReceiverID'' of
                     Inr m \<Rightarrow> ([St_header ''Claims'', St_dataframe m],
                               [Merge_on ''Food_ID''] @ [Merge_on ''ReceiverID''])
                   | Inl e \<Rightarrow>
                       ([St_header ''Claims'', St_error e, St_write ''Raw claims data:'',
                         St_dataframe claims_fx],
                        [Merge_on ''Food_ID''] @ [Merge_on ''ReceiverID'']))"
    by blast
  from sub have "sub = \<lparr>columns = [''ReceiverID'', ''Name''], rows = [[IntC 3, StrC ''Shelter One'']]\<rparr>"
    by (simp add: receivers_fx_def select_cols_def lookup_cell_def)
  then have "merge_on ?d sub ''ReceiverID'' =
      Inr \<lparr>columns = [''Claim_ID'', ''Food_ID'', ''ReceiverID'', ''Status'', ''Food_Name'', ''Name''],
           rows = [[IntC 1, IntC 7, IntC 3, StrC ''Pending'', StrC ''Bread'', StrC ''Shelter One''],
                   [IntC 2, IntC 8, IntC 4, StrC ''Completed'', NullC, NullC]]\<rparr>"
    by (simp add: frame_eval)
  with shown have 1: "show_claims claims_fx food_fx receivers_fx =
       ([St_header ''Claims'',
         St_dataframe
           \<lparr>columns = [''Claim_ID'', ''Food_ID'', ''ReceiverID'', ''Status'', ''Food_Name'', ''Name''],
            rows = [[IntC 1, IntC 7, IntC 3, StrC ''Pending'', StrC ''Bread'', StrC ''Shelter One''],
                    [IntC 2, IntC 8, IntC 4, StrC ''Completed'', NullC, NullC]]\<rparr>],
        [Merge_on ''Food_ID'', Merge_on ''ReceiverID''])"
    by simp
  have ne': "\<not> df_empty claims_text_key_fx"
    by (simp add: claims_text_key_fx_def df_empty_def)
  have raised: "claims_with_details claims_text_key_fx food_fx receivers_fx =
       (Inl ValueError, [Merge_on ''Food_ID'', Merge_on ''ReceiverID''])"
    by (simp add: claims_with_details_def merge_receivers_def receiver_key_def
        claims_text_key_fx_def food_fx_def receivers_fx_def frame_eval)
  with show_claims_receiver_join[OF ne' ne(2) ne(3)]
  have 2: "show_claims claims_text_key_fx food_fx receivers_fx =
       ([St_header ''Claims'', St_error ValueError, St_write ''Raw claims data:'',
         St_dataframe claims_text_key_fx],
        [Merge_on ''Food_ID'', Merge_on ''ReceiverID''])"
    by blast
  from ne key 1 ne' raised 2 show ?thesis by simp
qed

text \<open>
  C1 as stated fails where it says that the raw claims are shown when no key resolves:
  with claims that call the receiver \<^verbatim>\<open>Receiver\<close> and receivers that call it
  \<^verbatim>\<open>Receiver_ID\<close>, no key and no fallback column is found, and what is displayed is the
  claims frame with the \<^verbatim>\<open>Food_Name\<close> column merged in.
\<close>

theorem show_claims_no_key_counterexample:
  "\<not> df_empty claims_nokey_fx \<and> \<not> df_empty food_fx \<and> \<not> df_empty receivers_nokey_fx
   \<and> receiver_key (columns claims_nokey_fx) (columns receivers_nokey_fx) = None
   \<and> fallback_col (columns claims_nokey_fx) (columns receivers_nokey_fx) = None
   \<and> show_claims claims_nokey_fx food_fx receivers_nokey_fx =
       ([St_header ''Claims'',
         St_dataframe
           \<lparr>columns = [''Claim_ID'', ''Food_ID'', ''Receiver'', ''Status'', ''Food_Name''],
            rows = [[IntC 1, IntC 7, IntC 3, StrC ''Pending'', StrC ''Bread'']]\<rparr>],
        [Merge_on ''Food_ID''])
   \<and> fst (show_claims claims_nokey_fx food_fx receivers_nokey_fx)
       \<noteq> [St_header ''Claims'', St_dataframe claims_nokey_fx]"
  by (simp add: show_claims_def claims_with_details_def merge_receivers_def receiver_key_def
      fallback_col_def endswith_def claims_nokey_fx_def food_fx_def receivers_nokey_fx_def frame_eval)

text \<open>
  C10. If any of the three frames is empty, the view shows the header and the no-data
  warning and calls no merge; so a frame is displayed, or a merge is called, only when
  all three are non-empty.
\<close>

theorem show_claims_needs_all_three:
  "(df_empty claims \<or> df_empty food_listings \<or> df_empty receivers \<longrightarrow>
      show_claims claims food_listings receivers =
        ([St_header ''Claims'', St_warning ''No claims data available''], []))
   \<and> (snd (show_claims claims food_listings receivers) \<noteq> []
        \<or> (\<exists>d. St_dataframe d \<in> set (fst (show_claims claims food_listings receivers))) \<longrightarrow>
      \<not> df_empty claims \<and> \<not> df_empty food_listings \<and> \<not> df_empty receivers)"
proof -
  have warn: "show_claims claims food_listings receivers =
        ([St_header ''Claims'', St_warning ''No claims data available''], [])"
    if "df_empty claims \<or> df_empty food_listings \<or> df_empty receivers"
    using that by (simp add: show_claims_def)
  then show ?thesis by auto
qed

theorem show_claims_needs_all_three_witness:
  "\<not> df_empty claims_fx \<and> \<not> df_empty food_fx \<and> df_empty DataFrame
   \<and> show_claims claims_fx food_fx DataFrame =
       ([St_header ''Claims'', St_warning ''No claims data available''], [])"
proof -
  have ne: "\<not> df_empty claims_fx" "\<not> df_empty food_fx"
    by (simp_all add: claims_fx_def food_fx_def df_empty_def)
  have "df_empty claims_fx \<or> df_empty food_fx \<or> df_empty DataFrame"
    by (simp add: df_empty_DataFrame)
  with show_claims_needs_all_three[of claims_fx food_fx DataFrame]
  have "show_claims claims_fx food_fx DataFrame =
       ([St_header ''Claims'', St_warning ''No claims data available''], [])"
    by blast
  with ne show ?thesis
    by (simp add: df_empty_DataFrame)
qed

section \<open>Properties of the data access layer\<close>


text \<open>
  C2 (amended). \<^verbatim>\<open>execute_query\<close> returns \<^verbatim>\<open>False\<close> exactly when there is no
  connection. With a connection it returns \<^verbatim>\<open>True\<close> once the driver has executed the
  statement, and an exception that the driver raises is not caught: it reaches the caller.
\<close>

theorem execute_query_outcomes:
  "execute_query query params None = Inr (False, None)
   \<and> (\<forall>db db'. cursor_execute query (case params of None \<Rightarrow> [] | Some ps \<Rightarrow> ps) db = Inr db' \<longrightarrow>
         execute_query query params (Some db) = Inr (True, Some db'))
   \<and> (\<forall>db e. cursor_execute query (case params of None \<Rightarrow> [] | Some ps \<Rightarrow> ps) db = Inl e \<longrightarrow>
         execute_query query params (Some db) = Inl e)"
  by (cases params) (auto simp: execute_query_def simp del: cursor_execute.simps)

text \<open>
  C2 as stated fails: with a connection, an insert that is given one parameter for its
  five markers, or a text that is no statement, ends in the driver's exception and not in
  \<^verbatim>\<open>False\<close>.
\<close>

theorem execute_query_raises_counterexample:
  "execute_query insert_provider_sql (Some [StrC ''Green Grocer'']) (Some db_fx) = Inl ProgrammingError
   \<and> execute_query ''DROP'' None (Some db_fx) = Inl ProgrammingError"
  by (simp add: execute_query_def insert_provider_sql_def insert_receiver_sql_def update_provider_sql_def)

text \<open>The theorem at a statement the driver refuses and at one it executes.\<close>

theorem execute_query_outcomes_witness:
  "cursor_execute insert_provider_sql [StrC ''Green Grocer''] db_fx = Inl ProgrammingError
   \<and> execute_query insert_provider_sql (Some [StrC ''Green Grocer'']) (Some db_fx)
       = Inl ProgrammingError
   \<and> cursor_execute insert_receiver_sql
         [StrC ''Shelter Two'', StrC ''Shelter'', StrC ''Zenith'', StrC ''555-0201''] empty_db
       = Inr (empty_db\<lparr>Receivers :=
                [\<lparr>r_Receiver_ID = 1, r_Name = ''Shelter Two'', r_Type = ''Shelter'',
                  r_City = ''Zenith'', r_Contact = ''555-0201''\<rparr>]\<rparr>)
   \<and> execute_query insert_receiver_sql
         (Some [StrC ''Shelter Two'', StrC ''Shelter'', StrC ''Zenith'', StrC ''555-0201''])
         (Some empty_db)
       = Inr (True, Some (empty_db\<lparr>Receivers :=
                [\<lparr>r_Receiver_ID = 1, r_Name = ''Shelter Two'', r_Type = ''Shelter'',
                  r_City = ''Zenith'', r_Contact = ''555-0201''\<rparr>]\<rparr>))"
proof -
  have refused: "cursor_execute insert_provider_sql
          (case Some [StrC ''Green Grocer''] of None \<Rightarrow> [] | Some ps \<Rightarrow> ps) db_fx
        = Inl ProgrammingError"
    by simp
  with execute_query_outcomes[of insert_provider_sql "Some [StrC ''Green Grocer'']"]
  have 1: "execute_query insert_provider_sql (Some [StrC ''Green Grocer'']) (Some db_fx)
        = Inl ProgrammingError"
    by blast
  have accepted: "cursor_execute insert_receiver_sql
          (case Some [StrC ''Shelter Two'', StrC ''Shelter'', StrC ''Zenith'', StrC ''555-0201''] of
             None \<Rightarrow> [] | Some ps \<Rightarrow> ps) empty_db
        = Inr (empty_db\<lparr>Receivers :=
                [\<lparr>r_Receiver_ID = 1, r_Name = ''Shelter Two'', r_Type = ''Shelter'',
                  r_City = ''Zenith'', r_Contact = ''555-0201''\<rparr>]\<rparr>)"
    by (simp add: insert_provider_sql_def insert_receiver_sql_def empty_db_def fresh_id_def)
  with execute_query_outcomes[of insert_receiver_sql
      "Some [StrC ''Shelter Two'', StrC ''Shelter'', StrC ''Zenith'', StrC ''555-0201'']"]
  have 2: "execute_query insert_receiver_sql
         (Some [StrC ''Shelter Two'', StrC ''Shelter'', StrC ''Zenith'', StrC ''555-0201''])
         (Some empty_db)
       = Inr (True, Some (empty_db\<lparr>Receivers :=
                [\<lparr>r_Receiver_ID = 1, r_Name = ''Shelter Two'', r_Type = ''Shelter'',
                  r_City = ''Zenith'', r_Contact = ''555-0201''\<rparr>]\<rparr>))"
    by blast
  from refused 1 accepted 2 show ?thesis by simp
qed

section \<open>Properties of the queries view and the reports\<close>

lemma contains_iff: "contains needle hay \<longleftrightarrow> (\<exists>p s. hay = p @ needle @ s)"
proof (induction hay)
  case Nil
  then show ?case by auto
next
  case (Cons c cs)
  have "take (length needle) (c # cs) = needle \<longleftrightarrow> (\<exists>s. c # cs = needle @ s)"
    by (metis append_eq_conv_conj append_take_drop_id)
  moreover have "(\<exists>p s. c # cs = p @ needle @ s) \<longleftrightarrow>
      (\<exists>s. c # cs = needle @ s) \<or> (\<exists>p s. cs = p @ needle @ s)"
  proof
    assume "\<exists>p s. c # cs = p @ needle @ s"
    then obtain p s where ps: "c # cs = p @ needle @ s" by blast
    show "(\<exists>s. c # cs = needle @ s) \<or> (\<exists>p s. cs = p @ needle @ s)"
    proof (cases p)
      case Nil
      with ps show ?thesis by auto
    next
      case (Cons a p')
      with ps have "cs = p' @ needle @ s" by simp
      then show ?thesis by blast
    qed
  next
    assume "(\<exists>s. c # cs = needle @ s) \<or> (\<exists>p s. cs = p @ needle @ s)"
    then show "\<exists>p s. c # cs = p @ needle @ s"
    proof
      assume "\<exists>s. c # cs = needle @ s"
      then obtain s where "c # cs = [] @ needle @ s" by auto
      then show ?thesis by blast
    next
      assume "\<exists>p s. cs = p @ needle @ s"
      then obtain p s where "c # cs = (c # p) @ needle @ s" by auto
      then show ?thesis by blast
    qed
  qed
  ultimately show ?case using Cons.IH by simp
qed

text \<open>
  C9 (amended). In the queries view a bar chart is drawn for a result exactly when the
  result is not empty, has at least two columns and more than one row, and the name of its
  last column contains \<^verbatim>\<open>Total\<close> or \<^verbatim>\<open>Count\<close>.
\<close>

theorem chart_policy:
  "(\<exists>c. St_plotly_chart c \<in> set (render_result query result)) \<longleftrightarrow>
     (\<not> df_empty result \<and> 2 \<le> length (columns result) \<and> 1 < length (rows result)
      \<and> ((\<exists>p s. last (columns result) = p @ ''Total'' @ s)
          \<or> (\<exists>p s. last (columns result) = p @ ''Count'' @ s)))"
  by (auto simp: render_result_def contains_iff)

text \<open>The theorem at report 1 of the fixture: two rows, last column \<^verbatim>\<open>Total_Receivers\<close>.\<close>

theorem chart_policy_witness:
  "(\<exists>c. St_plotly_chart c \<in> set (render_result query1 (report1 db_fx)))
   \<and> report1 db_fx =
       \<lparr>columns = [''City'', ''Total_Providers'', ''Total_Receivers''],
        rows = [[StrC ''Adambury'', IntC 1, IntC 1], [StrC ''Zenith'', IntC 1, IntC 0]]\<rparr>"
proof -
  have r: "report1 db_fx =
       \<lparr>columns = [''City'', ''Total_Providers'', ''Total_Receivers''],
        rows = [[StrC ''Adambury'', IntC 1, IntC 1], [StrC ''Zenith'', IntC 1, IntC 0]]\<rparr>"
    by (simp add: report1_def combined_def db_fx_def city_row_def count_distinct_def)
  have "last (columns (report1 db_fx)) = ''Total_Receivers''"
    by (simp add: r)
  then have "last (columns (report1 db_fx)) = [] @ ''Total'' @ ''_Receivers''"
    by simp
  then have "\<exists>p s. last (columns (report1 db_fx)) = p @ ''Total'' @ s"
    by blast
  moreover have "\<not> df_empty (report1 db_fx)" "2 \<le> length (columns (report1 db_fx))"
    "1 < length (rows (report1 db_fx))"
    by (simp_all add: r df_empty_def)
  ultimately have "\<exists>c. St_plotly_chart c \<in> set (render_result query1 (report1 db_fx))"
    using chart_policy[of query1 "report1 db_fx"] by blast
  with r show ?thesis by simp
qed

text \<open>
  C9 as stated fails on report 5: its only column, \<^verbatim>\<open>Total_Quantity_Available\<close>,
  contains \<^verbatim>\<open>Total\<close>, and no chart is drawn for its single cell.
\<close>

theorem chart_policy_counterexample:
  "read_sql query5 db_fx = Inr \<lparr>columns = [''Total_Quantity_Available''], rows = [[IntC 35]]\<rparr>
   \<and> contains ''Total'' (last (columns \<lparr>columns = [''Total_Quantity_Available''], rows = [[IntC 35]]\<rparr>))
   \<and> render_result query5 \<lparr>columns = [''Total_Quantity_Available''], rows = [[IntC 35]]\<rparr> =
       [St_code query5, St_dataframe \<lparr>columns = [''Total_Quantity_Available''], rows = [[IntC 35]]\<rparr>]"
  by (simp add: read_sql_def query1_def query5_def report5_def sql_sum_def db_fx_def listing_fx_def
      render_result_def df_empty_def)

lemma read_sql_query5: "read_sql query5 db = report5 db"
  by (simp add: read_sql_def query1_def query5_def)

text \<open>
  Report 5 returns one row with one column: the sum of \<^verbatim>\<open>Quantity\<close> over all rows when
  the table is not empty and the sum fits the column's type, NULL for the empty table;
  a sum that does not fit ends the statement with an overflow error.
\<close>

lemma report5_sum:
  "read_sql query5 db =
     (if Food_Listings_Dataset db = []
        then Inr \<lparr>columns = [''Total_Quantity_Available''], rows = [[NullC]]\<rparr>
      else if - 2147483648 \<le> (\<Sum>f\<leftarrow>Food_Listings_Dataset db. sint (f_Quantity f))
            \<and> (\<Sum>f\<leftarrow>Food_Listings_Dataset db. sint (f_Quantity f)) \<le> 2147483647
        then Inr \<lparr>columns = [''Total_Quantity_Available''],
                  rows = [[IntC (\<Sum>f\<leftarrow>Food_Listings_Dataset db. sint (f_Quantity f))]]\<rparr>
      else Inl ArithmeticOverflow)"
  by (simp add: read_sql_query5 report5_def sql_sum_def)

text \<open>The fixture with quantities 10, 5 and 20 reports 35, in the frame and in the metric.\<close>

lemma report5_fixture:
  "map (\<lambda>f. sint (f_Quantity f)) (Food_Listings_Dataset db_fx) = [10, 5, 20]
   \<and> read_sql query5 db_fx = Inr \<lparr>columns = [''Total_Quantity_Available''], rows = [[IntC 35]]\<rparr>
   \<and> show_eda_analysis_tab5 Map.empty (Some db_fx) =
       Inr ([St_subheader ''Query 5: Total Quantity of Food Available'',
             St_metric ''Total Food Available'' (IntC 35),
             St_dataframe \<lparr>columns = [''Total_Quantity_Available''], rows = [[IntC 35]]\<rparr>],
            [query5 \<mapsto> \<lparr>columns = [''Total_Quantity_Available''], rows = [[IntC 35]]\<rparr>])"
proof -
  have q: "map (\<lambda>f. sint (f_Quantity f)) (Food_Listings_Dataset db_fx) = [10, 5, 20]"
    by (simp add: db_fx_def listing_fx_def)
  have ne: "Food_Listings_Dataset db_fx \<noteq> []"
    by (simp add: db_fx_def)
  have r: "read_sql query5 db_fx =
      Inr \<lparr>columns = [''Total_Quantity_Available''], rows = [[IntC 35]]\<rparr>"
    using ne by (simp add: report5_sum q)
  then have "show_eda_analysis_tab5 Map.empty (Some db_fx) =
       Inr ([St_subheader ''Query 5: Total Quantity of Food Available'',
             St_metric ''Total Food Available'' (IntC 35),
             St_dataframe \<lparr>columns = [''Total_Quantity_Available''], rows = [[IntC 35]]\<rparr>],
            [query5 \<mapsto> \<lparr>columns = [''Total_Quantity_Available''], rows = [[IntC 35]]\<rparr>])"
    by (simp add: show_eda_analysis_tab5_def load_data_def df_empty_def iloc0_def
        lookup_cell_def format_thousands_def)
  with q r show ?thesis by simp
qed

text \<open>Quantities 2147483647 and 1: the total does not fit, and the statement fails.\<close>

lemma report5_overflow:
  "read_sql query5 large_db_fx = Inl ArithmeticOverflow"
  by (simp add: report5_sum large_db_fx_def listing_fx_def)

text \<open>
  C5 at the empty listings table. The statement returns one row whose cell is NULL, not
  the sum 0 of no rows. The frame is not empty, so the queries view displays it, and the
  EDA view passes its guard, reads the cell and fails with \<^verbatim>\<open>TypeError\<close> when it
  formats it as a number.
\<close>

theorem report5_empty_table:
  "Food_Listings_Dataset empty_db = []
   \<and> read_sql query5 empty_db =
       Inr \<lparr>columns = [''Total_Quantity_Available''], rows = [[NullC]]\<rparr>
   \<and> \<not> df_empty \<lparr>columns = [''Total_Quantity_Available''], rows = [[NullC]]\<rparr>
   \<and> render_result query5 \<lparr>columns = [''Total_Quantity_Available''], rows = [[NullC]]\<rparr> =
       [St_code query5,
        St_dataframe \<lparr>columns = [''Total_Quantity_Available''], rows = [[NullC]]\<rparr>]
   \<and> show_eda_analysis_tab5 Map.empty (Some empty_db) = Inl TypeError"
proof -
  have e: "Food_Listings_Dataset empty_db = []"
    by (simp add: empty_db_def)
  then have r: "read_sql query5 empty_db =
       Inr \<lparr>columns = [''Total_Quantity_Available''], rows = [[NullC]]\<rparr>"
    by (simp add: report5_sum)
  have ne: "\<not> df_empty \<lparr>columns = [''Total_Quantity_Available''], rows = [[NullC]]\<rparr>"
    by (simp add: df_empty_def)
  have q: "render_result query5 \<lparr>columns = [''Total_Quantity_Available''], rows = [[NullC]]\<rparr> =
       [St_code query5,
        St_dataframe \<lparr>columns = [''Total_Quantity_Available''], rows = [[NullC]]\<rparr>]"
    by (simp add: render_result_def df_empty_def)
  have t: "show_eda_analysis_tab5 Map.empty (Some empty_db) = Inl TypeError"
    using r by (simp add: show_eda_analysis_tab5_def load_data_def df_empty_def iloc0_def
        lookup_cell_def format_thousands_def)
  from e r ne q t show ?thesis by (intro conjI)
qed

lemma read_sql_query10: "read_sql query10 db = report10 db"
  by (simp add: read_sql_def query1_def query5_def query10_def)

lemma sql_round2_hundredths: "\<exists>k::int. sql_round2 x = of_int k / 100"
proof (cases "0 \<le> x")
  case True
  then show ?thesis by (auto simp: sql_round2_def)
next
  case False
  have "- (of_int \<lfloor>- x * 100 + 1 / 2\<rfloor> / 100) = (of_int (- \<lfloor>- x * 100 + 1 / 2\<rfloor>) :: rat) / 100"
    by simp
  with False show ?thesis unfolding sql_round2_def by (metis (no_types))
qed

lemma sql_round2_error: "\<bar>sql_round2 x - x\<bar> \<le> 1 / 200"
proof -
  have pos: "\<bar>of_int \<lfloor>y * 100 + 1 / 2\<rfloor> / 100 - y\<bar> \<le> 1 / 200" for y :: rat
  proof -
    define z :: rat where "z = of_int \<lfloor>y * 100 + 1 / 2\<rfloor>"
    have "z \<le> y * 100 + 1 / 2"
      unfolding z_def by (rule of_int_floor_le)
    moreover have "y * 100 + 1 / 2 < z + 1"
      unfolding z_def using floor_correct[of "y * 100 + 1 / 2"] by simp
    ultimately have "z / 100 - y \<le> 1 / 200" and "- (1 / 200) \<le> z / 100 - y"
      by (simp_all add: field_simps)
    then have "\<bar>z / 100 - y\<bar> \<le> 1 / 200"
      by linarith
    then show ?thesis by (simp add: z_def)
  qed
  show ?thesis
  proof (cases "0 \<le> x")
    case True
    with pos[of x] show ?thesis by (simp add: sql_round2_def)
  next
    case False
    have "\<bar>- (of_int \<lfloor>- x * 100 + 1 / 2\<rfloor> / 100) - x\<bar> = \<bar>of_int \<lfloor>(- x) * 100 + 1 / 2\<rfloor> / 100 - (- x)\<bar>"
      by (simp add: abs_minus_commute)
    with pos[of "- x"] False show ?thesis by (simp add: sql_round2_def)
  qed
qed

lemma collect_map_Inr:
  "(\<And>x. x \<in> set xs \<Longrightarrow> f x = Inr (g x)) \<Longrightarrow> collect (map f xs) = Inr (map g xs)"
  by (induction xs) auto

lemma status_count_count_list: "status_count cs s = int (count_list (map c_Status cs) s)"
  by (induction cs) (auto simp: status_count_def)

lemma status_counts_total:
  "(\<Sum>s\<leftarrow>remdups (map c_Status cs). status_count cs s) = int (length cs)"
proof -
  have "(\<Sum>s\<leftarrow>remdups (map c_Status cs). count_list (map c_Status cs) s)
        = sum (count_list (map c_Status cs)) (set (map c_Status cs))"
    by (simp add: sum_list_distinct_conv_sum_set)
  also have "\<dots> = length (map c_Status cs)"
    by (rule sum_count_set) auto
  finally have "(\<Sum>s\<leftarrow>remdups (map c_Status cs). count_list (map c_Status cs) s) = length cs"
    by simp
  then have "int (\<Sum>s\<leftarrow>remdups (map c_Status cs). count_list (map c_Status cs) s) = int (length cs)"
    by simp
  then have "sum_list (map int (map (count_list (map c_Status cs)) (remdups (map c_Status cs))))
      = int (length cs)"
    by (simp only: sum_list_of_nat)
  then show ?thesis
    by (simp add: status_count_count_list comp_def)
qed

lemma exact_percentages_total:
  assumes "cs \<noteq> []"
  shows "(\<Sum>s\<leftarrow>remdups (map c_Status cs).
            (of_int (status_count cs s) * 100 / of_int (int (length cs)) :: rat)) = 100"
proof -
  let ?ss = "remdups (map c_Status cs)"
  let ?c = "100 / of_int (int (length cs)) :: rat"
  have "(\<Sum>s\<leftarrow>?ss. (of_int (status_count cs s) * 100 / of_int (int (length cs)) :: rat))
        = (\<Sum>s\<leftarrow>?ss. of_int (status_count cs s) * ?c)"
    by simp
  also have "\<dots> = (\<Sum>s\<leftarrow>?ss. of_int (status_count cs s)) * ?c"
    by (rule sum_list_mult_const)
  also have "(\<Sum>s\<leftarrow>?ss. (of_int (status_count cs s) :: rat))
        = sum_list (map of_int (map (status_count cs) ?ss))"
    by (simp add: comp_def)
  also have "\<dots> = of_int (int (length cs))"
    by (simp only: sum_list_of_int status_counts_total)
  also have "of_int (int (length cs)) * ?c = 100"
    using assms by simp
  finally show ?thesis .
qed

lemma rounded_sum_close:
  fixes f :: "'a \<Rightarrow> rat"
  shows "\<bar>(\<Sum>x\<leftarrow>xs. sql_round2 (f x)) - (\<Sum>x\<leftarrow>xs. f x)\<bar> \<le> of_nat (length xs) / 200"
proof -
  have "\<bar>(\<Sum>x\<leftarrow>xs. sql_round2 (f x)) - (\<Sum>x\<leftarrow>xs. f x)\<bar>
        = \<bar>\<Sum>x\<leftarrow>xs. sql_round2 (f x) - f x\<bar>"
    by (simp add: sum_list_subtractf)
  also have "\<dots> \<le> (\<Sum>x\<leftarrow>xs. \<bar>sql_round2 (f x) - f x\<bar>)"
    using sum_list_abs[of "map (\<lambda>x. sql_round2 (f x) - f x) xs"] by (simp add: comp_def)
  also have "\<dots> \<le> (\<Sum>x\<leftarrow>xs. 1 / 200)"
    by (rule sum_list_mono) (rule sql_round2_error)
  also have "\<dots> = of_nat (length xs) / 200"
    by (simp add: sum_list_triv)
  finally show ?thesis .
qed

lemma report10_rows:
  "report10 db =
     Inr \<lparr>columns = [''Status'', ''Count'', ''Percentage''],
          rows = map (\<lambda>s. [StrC s, IntC (status_count (Claims db) s),
                            NumC (sql_round2 (of_int (status_count (Claims db) s) * 100
                                              / of_int (int (length (Claims db)))))])
                     (remdups (map c_Status (Claims db)))\<rparr>"
proof -
  have "status_row (Claims db) s =
          Inr [StrC s, IntC (status_count (Claims db) s),
               NumC (sql_round2 (of_int (status_count (Claims db) s) * 100
                                 / of_int (int (length (Claims db)))))]"
    if "s \<in> set (remdups (map c_Status (Claims db)))" for s
  proof -
    from that have "Claims db \<noteq> []" by auto
    then show ?thesis by (simp add: status_row_def sql_div_def)
  qed
  then have "collect (map (status_row (Claims db)) (remdups (map c_Status (Claims db)))) =
      Inr (map (\<lambda>s. [StrC s, IntC (status_count (Claims db) s),
                      NumC (sql_round2 (of_int (status_count (Claims db) s) * 100
                                        / of_int (int (length (Claims db)))))])
               (remdups (map c_Status (Claims db))))"
    by (rule collect_map_Inr)
  then show ?thesis
    by (simp add: report10_def)
qed

text \<open>
  C7. On an empty claims table report 10 is the empty result set, for which the queries
  view shows nothing but the statement; and on no table does the report end in a division
  by zero.
\<close>

theorem report10_empty:
  "(Claims db = [] \<longrightarrow>
      read_sql query10 db = Inr \<lparr>columns = [''Status'', ''Count'', ''Percentage''], rows = []\<rparr>
      \<and> render_result query10 \<lparr>columns = [''Status'', ''Count'', ''Percentage''], rows = []\<rparr>
          = [St_code query10])
   \<and> read_sql query10 db \<noteq> Inl DivideByZero"
proof -
  have "read_sql query10 db \<noteq> Inl DivideByZero"
    by (simp add: read_sql_query10 report10_rows)
  then show ?thesis
    by (simp add: read_sql_query10 report10_rows render_result_def df_empty_def)
qed

text \<open>The theorem at the empty database.\<close>

theorem report10_empty_witness:
  "Claims empty_db = []
   \<and> read_sql query10 empty_db = Inr \<lparr>columns = [''Status'', ''Count'', ''Percentage''], rows = []\<rparr>"
proof -
  have e: "Claims empty_db = []" by (simp add: empty_db_def)
  with report10_empty[of empty_db] show ?thesis by blast
qed

text \<open>
  C6. For a claims table that is not empty, report 10 has one row for each status that
  occurs, no status twice, with the number of claims of that status and the percentage
  \<open>count * 100 / total\<close> rounded to two decimal places; and the percentages add up to 100
  within half a hundredth for each status group.
\<close>

theorem report10_distribution:
  assumes "Claims db \<noteq> []"
  shows "\<exists>frame pcts.
       read_sql query10 db = Inr frame
     \<and> columns frame = [''Status'', ''Count'', ''Percentage'']
     \<and> distinct (remdups (map c_Status (Claims db)))
     \<and> set (remdups (map c_Status (Claims db))) = c_Status ` set (Claims db)
     \<and> column_values frame ''Status'' = Inr (map StrC (remdups (map c_Status (Claims db))))
     \<and> column_values frame ''Count'' =
         Inr (map (\<lambda>s. IntC (status_count (Claims db) s)) (remdups (map c_Status (Claims db))))
     \<and> column_values frame ''Percentage'' = Inr (map NumC pcts)
     \<and> pcts = map (\<lambda>s. sql_round2 (of_int (status_count (Claims db) s) * 100
                                     / of_nat (length (Claims db))))
                   (remdups (map c_Status (Claims db)))
     \<and> (\<forall>p \<in> set pcts. \<exists>k::int. p = of_int k / 100)
     \<and> \<bar>sum_list pcts - 100\<bar> \<le> of_nat (length pcts) / 200"
proof -
  let ?ss = "remdups (map c_Status (Claims db))"
  let ?exact = "\<lambda>s. (of_int (status_count (Claims db) s) * 100 / of_int (int (length (Claims db))) :: rat)"
  let ?pcts = "map (\<lambda>s. sql_round2 (?exact s)) ?ss"
  let ?frame = "\<lparr>columns = [''Status'', ''Count'', ''Percentage''],
                 rows = map (\<lambda>s. [StrC s, IntC (status_count (Claims db) s),
                                   NumC (sql_round2 (?exact s))]) ?ss\<rparr>"
  have frame: "read_sql query10 db = Inr ?frame"
    by (simp only: read_sql_query10 report10_rows)
  have st: "column_values ?frame ''Status'' = Inr (map StrC ?ss)"
    by (simp add: column_values_def lookup_cell_def)
  have ct: "column_values ?frame ''Count'' = Inr (map (\<lambda>s. IntC (status_count (Claims db) s)) ?ss)"
    by (simp add: column_values_def lookup_cell_def)
  have pc: "column_values ?frame ''Percentage'' = Inr (map NumC ?pcts)"
    by (simp add: column_values_def lookup_cell_def comp_def)
  have hund: "\<forall>p \<in> set ?pcts. \<exists>k::int. p = of_int k / 100"
    using sql_round2_hundredths by auto
  have "\<bar>(\<Sum>s\<leftarrow>?ss. sql_round2 (?exact s)) - (\<Sum>s\<leftarrow>?ss. ?exact s)\<bar> \<le> of_nat (length ?ss) / 200"
    by (rule rounded_sum_close)
  then have close: "\<bar>sum_list ?pcts - 100\<bar> \<le> of_nat (length ?pcts) / 200"
    using exact_percentages_total[OF assms] by (simp add: comp_def)
  have eq: "?pcts = map (\<lambda>s. sql_round2 (of_int (status_count (Claims db) s) * 100
                                     / of_nat (length (Claims db)))) ?ss"
    by simp
  from frame st ct pc hund close eq show ?thesis
    by (intro exI[of _ ?frame] exI[of _ ?pcts] conjI) simp_all
qed

text \<open>Three claims of three statuses: 33.33 each, 99.99 together.\<close>

theorem report10_distribution_witness:
  "Claims db_fx \<noteq> []
   \<and> read_sql query10 db_fx =
       Inr \<lparr>columns = [''Status'', ''Count'', ''Percentage''],
            rows = [[StrC ''Completed'', IntC 1, NumC (3333 / 100)],
                    [StrC ''Pending'', IntC 1, NumC (3333 / 100)],
                    [StrC ''Canceled'', IntC 1, NumC (3333 / 100)]]\<rparr>
   \<and> \<bar>sum_list [3333 / 100, 3333 / 100, 3333 / 100] - (100::rat)\<bar> \<le> of_nat 3 / 200"
proof -
  have ne: "Claims db_fx \<noteq> []"
    by (simp add: db_fx_def)
  have ss: "remdups (map c_Status (Claims db_fx)) = [''Completed'', ''Pending'', ''Canceled'']"
    by (simp add: db_fx_def)
  have cnt: "status_count (Claims db_fx) ''Completed'' = 1"
    "status_count (Claims db_fx) ''Pending'' = 1"
    "status_count (Claims db_fx) ''Canceled'' = 1"
    by (simp_all add: db_fx_def status_count_def)
  have len: "length (Claims db_fx) = 3"
    by (simp add: db_fx_def)
  have r: "sql_round2 (100 / 3) = 3333 / 100"
    by (simp add: sql_round2_def floor_eq_iff)
  from report10_distribution[OF ne] obtain frame pcts where
    frame: "read_sql query10 db_fx = Inr frame"
    and pcts: "pcts = map (\<lambda>s. sql_round2 (of_int (status_count (Claims db_fx) s) * 100
                                     / of_nat (length (Claims db_fx))))
                   (remdups (map c_Status (Claims db_fx)))"
    and close: "\<bar>sum_list pcts - 100\<bar> \<le> of_nat (length pcts) / 200"
    by blast
  from pcts have p: "pcts = [3333 / 100, 3333 / 100, 3333 / 100]"
    by (simp add: ss cnt len r)
  have "read_sql query10 db_fx =
       Inr \<lparr>columns = [''Status'', ''Count'', ''Percentage''],
            rows = [[StrC ''Completed'', IntC 1, NumC (3333 / 100)],
                    [StrC ''Pending'', IntC 1, NumC (3333 / 100)],
                    [StrC ''Canceled'', IntC 1, NumC (3333 / 100)]]\<rparr>"
    by (simp add: read_sql_query10 report10_rows ss cnt len r)
  with ne close p show ?thesis by simp
qed

lemma load_data_again:
  "load_data query cache conn = Inr (result, cache') \<Longrightarrow>
   load_data query cache' conn' = Inr (result, cache')"
  by (auto simp: load_data_def split: option.splits sum.splits)

lemma read_sql_query1: "read_sql query1 db = Inr (report1 db)"
  by (simp add: read_sql_def)

lemma load_data_query1:
  "\<exists>result cache'. load_data query1 cache conn = Inr (result, cache')
     \<and> (cache query1 = None \<longrightarrow>
          result = (case conn of Some db \<Rightarrow> report1 db | None \<Rightarrow> DataFrame))"
  by (auto simp: load_data_def read_sql_query1 split: option.splits)

lemma report1_cities:
  "column_values (report1 db) ''City'' = Inr (map StrC (sort (remdups (map fst (combined db)))))"
  by (simp add: column_values_def report1_def city_row_def lookup_cell_def comp_def Let_def)

text \<open>
  The report is a function of the rows that the two tables hold, not of the order in
  which they are stored.
\<close>

lemma count_distinct_card:
  "count_distinct xs = int (card {v. Some v \<in> set xs})"
proof -
  have "set (concat (map (\<lambda>x. case x of None \<Rightarrow> [] | Some v \<Rightarrow> [v]) xs)) = {v. Some v \<in> set xs}"
    by (auto split: option.splits)
  then show ?thesis
    by (simp add: count_distinct_def length_remdups_card_conv)
qed

lemma city_row_set:
  assumes "set comb = set comb'"
  shows "city_row comb city = city_row comb' city"
proof -
  have "set (map g (filter P comb)) = set (map g (filter P comb'))"
    for g :: "string \<times> int option \<times> int option \<Rightarrow> int option" and P
    using assms by auto
  then show ?thesis
    by (simp add: city_row_def Let_def count_distinct_card)
qed

lemma report1_rows_only:
  assumes "set (Providers db) = set (Providers db')" and "set (Receivers db) = set (Receivers db')"
  shows "report1 db = report1 db'"
proof -
  have c: "set (combined db) = set (combined db')"
    using assms by (simp add: combined_def)
  then have "set (map fst (combined db)) = set (map fst (combined db'))"
    by simp
  then have "sort (remdups (map fst (combined db))) = sort (remdups (map fst (combined db')))"
    by (metis sorted_list_of_set_sort_remdups)
  moreover have "city_row (combined db) = city_row (combined db')"
    using city_row_set[OF c] by blast
  ultimately show ?thesis
    by (simp add: report1_def)
qed

text \<open>
  C8. Report 1 run twice through \<^verbatim>\<open>load_data\<close> against the same connection returns the
  same frame both times (the second run is served from the store that the first one
  filled); a first run with nothing stored returns the report of the database. The report
  has one row per city of a provider or receiver, in strictly ascending order of the city
  name, so the order of its rows is fixed by the data.
\<close>

theorem report1_twice:
  "(\<exists>result cache'.
       load_data query1 cache conn = Inr (result, cache')
     \<and> load_data query1 cache' conn = Inr (result, cache')
     \<and> (cache query1 = None \<longrightarrow>
          result = (case conn of Some db \<Rightarrow> report1 db | None \<Rightarrow> DataFrame)))
   \<and> (\<exists>cities. column_values (report1 db) ''City'' = Inr (map StrC cities)
         \<and> sorted_wrt (<) cities
         \<and> set cities = p_City ` set (Providers db) \<union> r_City ` set (Receivers db))"
proof
  from load_data_query1[of cache conn] obtain result cache' where
    1: "load_data query1 cache conn = Inr (result, cache')"
    and 2: "cache query1 = None \<longrightarrow>
          result = (case conn of Some db \<Rightarrow> report1 db | None \<Rightarrow> DataFrame)"
    by auto
  from load_data_again[OF 1] have "load_data query1 cache' conn = Inr (result, cache')" .
  with 1 2 show "\<exists>result cache'.
       load_data query1 cache conn = Inr (result, cache')
     \<and> load_data query1 cache' conn = Inr (result, cache')
     \<and> (cache query1 = None \<longrightarrow>
          result = (case conn of Some db \<Rightarrow> report1 db | None \<Rightarrow> DataFrame))"
    by (intro exI conjI)
next
  let ?cities = "sort (remdups (map fst (combined db)))"
  have "sorted_wrt (<) ?cities"
    by (simp add: strict_sorted_iff)
  moreover have "set ?cities = p_City ` set (Providers db) \<union> r_City ` set (Receivers db)"
    by (auto simp: combined_def image_iff)
  ultimately show "\<exists>cities. column_values (report1 db) ''City'' = Inr (map StrC cities)
         \<and> sorted_wrt (<) cities
         \<and> set cities = p_City ` set (Providers db) \<union> r_City ` set (Receivers db)"
    using report1_cities by blast
qed

text \<open>The theorem at the fixture, starting with nothing stored.\<close>

theorem report1_twice_witness:
  "load_data query1 Map.empty (Some db_fx) =
     Inr (\<lparr>columns = [''City'', ''Total_Providers'', ''Total_Receivers''],
           rows = [[StrC ''Adambury'', IntC 1, IntC 1], [StrC ''Zenith'', IntC 1, IntC 0]]\<rparr>,
          [query1 \<mapsto> \<lparr>columns = [''City'', ''Total_Providers'', ''Total_Receivers''],
           rows = [[StrC ''Adambury'', IntC 1, IntC 1], [StrC ''Zenith'', IntC 1, IntC 0]]\<rparr>])
   \<and> load_data query1
        [query1 \<mapsto> \<lparr>columns = [''City'', ''Total_Providers'', ''Total_Receivers''],
           rows = [[StrC ''Adambury'', IntC 1, IntC 1], [StrC ''Zenith'', IntC 1, IntC 0]]\<rparr>]
        (Some db_fx) =
     Inr (\<lparr>columns = [''City'', ''Total_Providers'', ''Total_Receivers''],
           rows = [[StrC ''Adambury'', IntC 1, IntC 1], [StrC ''Zenith'', IntC 1, IntC 0]]\<rparr>,
          [query1 \<mapsto> \<lparr>columns = [''City'', ''Total_Providers'', ''Total_Receivers''],
           rows = [[StrC ''Adambury'', IntC 1, IntC 1], [StrC ''Zenith'', IntC 1, IntC 0]]\<rparr>])"
proof -
  have r: "report1 db_fx = \<lparr>columns = [''City'', ''Total_Providers'', ''Total_Receivers''],
           rows = [[StrC ''Adambury'', IntC 1, IntC 1], [StrC ''Zenith'', IntC 1, IntC 0]]\<rparr>"
    by (simp add: report1_def combined_def db_fx_def city_row_def count_distinct_def)
  from report1_twice[of Map.empty "Some db_fx" db_fx] obtain result cache' where
    1: "load_data query1 Map.empty (Some db_fx) = Inr (result, cache')"
    and 2: "load_data query1 cache' (Some db_fx) = Inr (result, cache')"
    and 3: "result = report1 db_fx"
    by auto
  from 1 3 have "cache' = [query1 \<mapsto> report1 db_fx]"
    by (simp add: load_data_def read_sql_query1)
  with 1 2 3 r show ?thesis by simp
qed

section \<open>Properties of the CRUD forms\<close>

lemma read_sql_select_all:
  "read_sql (''SELECT * FROM '' @ table) db = select_all table db"
  by (simp add: read_sql_def query1_def query5_def query10_def)











text \<open>
  The create form has branches for Providers and Receivers only; for any other table it
  shows the subheader and leaves the database alone.
\<close>

lemma show_create_form_other_tables:
  "table \<noteq> ''Providers'' \<Longrightarrow> table \<noteq> ''Receivers'' \<Longrightarrow>
   show_create_form table form conn = Inr ([St_subheader (''Add New '' @ table)], conn)"
  by (simp add: show_create_form_def)

text \<open>
  The update form has fields and a submit button for Providers only. For every other
  table it executes nothing: the connection's state is the one it started with and no
  success message is shown.
\<close>

lemma show_update_form_other_tables:
  assumes "table \<noteq> ''Providers''"
    and "show_update_form table form cache conn = Inr (ui, cache', conn')"
  shows "conn' = conn \<and> (\<forall>msg. St_success msg \<notin> set ui)"
  using assms
  by (auto simp: show_update_form_def Let_def split: sum.splits option.splits if_splits prod.splits)

text \<open>
  C4 at the Receivers table: receiver 1 selected, a new name typed and the form
  submitted. The view shows its subheader and the database is unchanged, where the claim
  has the selected receiver's name changed.
\<close>

theorem show_update_form_receivers:
  "map_sum id (\<lambda>(ui, cache', conn'). (ui, conn'))
     (show_update_form ''Receivers'' update_form_fx Map.empty (Some db_fx)) =
   Inr ([St_subheader ''Update Receivers''], Some db_fx)"
proof -
  have "read_sql ''SELECT * FROM Receivers'' db_fx = select_all ''Receivers'' db_fx"
    using read_sql_select_all[of "''Receivers''" db_fx] by simp
  then show ?thesis
    by (simp add: show_update_form_def load_data_def select_all_def df_empty_def column_values_def
        id_col_def selectbox_def lookup_cell_def receiver_cells_def db_fx_def Let_def)
qed

text \<open>
  The Providers branch, for comparison: the update statement leaves the other three
  tables alone, keeps every provider with another identity as it is, and gives the
  providers with the selected identity the five submitted fields.
\<close>

lemma update_provider_frame:
  assumes "cursor_execute update_provider_sql
             [StrC name, StrC type, StrC address, StrC city, StrC contact, IntC ident] db = Inr db'"
  shows "Receivers db' = Receivers db \<and> Food_Listings_Dataset db' = Food_Listings_Dataset db
       \<and> Claims db' = Claims db
       \<and> length (Providers db') = length (Providers db)
       \<and> (\<forall>i < length (Providers db).
             (p_Provider_ID (Providers db ! i) \<noteq> ident \<longrightarrow> Providers db' ! i = Providers db ! i)
           \<and> (p_Provider_ID (Providers db ! i) = ident \<longrightarrow>
                Providers db' ! i =
                  \<lparr>p_Provider_ID = ident, p_Name = name, p_Type = type, p_Address = address,
                   p_City = city, p_Contact = contact\<rparr>))"
proof -
  have "update_provider_sql \<noteq> insert_provider_sql" "update_provider_sql \<noteq> insert_receiver_sql"
    by (simp_all add: update_provider_sql_def insert_provider_sql_def insert_receiver_sql_def)
  with assms have db': "db' = db\<lparr>Providers :=
      map (update_provider name type address city contact ident) (Providers db)\<rparr>"
    by auto
  show ?thesis
    unfolding db' by (auto simp: update_provider_def)
qed

end
